theory Spec2Isabelle
  imports Complex_Main "HOL-Library.Multiset" "HOL-Library.Monad_Syntax"
begin

unbundle bit_operations_syntax

section \<open>Noise3D: the seeded 3D gradient-noise field\<close>

text \<open>
  The embedding follows \<^verbatim>\<open>game/scripts/generateRealisticSprites.mjs\<close>.
  JavaScript numbers are modelled by exact reals (every finite double is a real number);
  a value that JavaScript would compute as \<^verbatim>\<open>NaN\<close>, \<^verbatim>\<open>undefined\<close> or an
  infinity is \<open>None\<close>. The integer steps of the source (\<^verbatim>\<open>>>> 0\<close>, \<^verbatim>\<open>%\<close>,
  \<^verbatim>\<open>& 255\<close>, \<^verbatim>\<open>& 15\<close>) are modelled exactly. The results of the floating-point
  operations are not rounded; where the arguments of the source grow without bound, in
  the octave loops of \<^verbatim>\<open>fbm\<close>, \<^verbatim>\<open>turbulence\<close> and \<^verbatim>\<open>ridged\<close>, a value whose
  magnitude reaches \<open>2^1024\<close> is an infinity.
\<close>

subsection \<open>The object and its permutation table\<close>

record Noise3D =
  seed :: int
  perm :: "nat list"

text \<open>\<^verbatim>\<open>seed >>> 0\<close>: the integer seed as an unsigned 32-bit value.\<close>

definition to_uint32 :: "int \<Rightarrow> nat" where
  "to_uint32 n = nat (n mod 2 ^ 32)"

text \<open>
  \<^verbatim>\<open>rng = (rng * 1664525 + 1013904223) >>> 0\<close>. The product is formed in double
  arithmetic; for \<open>rng < 2^32\<close> it stays below \<open>2^53\<close> (lemma \<open>lcg_exact\<close> below),
  so no rounding occurs and the step is the modular one.
\<close>

definition lcg :: "nat \<Rightarrow> nat" where
  "lcg rng = (rng * 1664525 + 1013904223) mod 2 ^ 32"

text \<open>\<^verbatim>\<open>[p[i], p[j]] = [p[j], p[i]]\<close>: both reads happen before both writes.\<close>

definition swap :: "nat list \<Rightarrow> nat \<Rightarrow> nat \<Rightarrow> nat list" where
  "swap p i j = p[i := p ! j, j := p ! i]"

text \<open>
  \<^verbatim>\<open>for (let i = 255; i > 0; i--) { rng = ...; const j = rng % (i + 1); swap }\<close>,
  as a recursion on the loop counter \<open>i\<close>.
\<close>

fun shuffle :: "nat \<Rightarrow> nat \<Rightarrow> nat list \<Rightarrow> nat list" where
  "shuffle 0 rng p = p"
| "shuffle (Suc i) rng p =
     (let rng' = lcg rng;
          j = rng' mod (Suc i + 1)
      in shuffle i rng' (swap p (Suc i) j))"

text \<open>
  \<^verbatim>\<open>initPermutation(seed)\<close>: the identity table of 256 bytes, shuffled, then written
  to \<^verbatim>\<open>this.perm[i]\<close> and \<^verbatim>\<open>this.perm[i + 256]\<close> for every \<open>i < 256\<close>. All 512
  entries of the table are overwritten, so the result does not depend on the old table.
\<close>

definition initPermutation :: "int \<Rightarrow> nat list" where
  "initPermutation s =
     (let p = shuffle 255 (to_uint32 s) [0..<256]
      in map (\<lambda>i. p ! (i mod 256)) [0..<512])"

text \<open>
  The constructor: \<^verbatim>\<open>this.seed = seed; this.perm = new Uint8Array(512);
  this.initPermutation(seed)\<close>. The default of its parameter is 12345; the generators
  pass \<^verbatim>\<open>Math.floor(Math.random() * 1000000)\<close> plus a multiple of the body index.
\<close>

definition Noise3D_new :: "int \<Rightarrow> Noise3D" where
  "Noise3D_new s = \<lparr>seed = s, perm = initPermutation s\<rparr>"

subsection \<open>fade, lerp, grad\<close>

definition fade :: "real \<Rightarrow> real" where
  "fade t = t * t * t * (t * (t * 6 - 15) + 10)"

definition lerp :: "real \<Rightarrow> real \<Rightarrow> real \<Rightarrow> real" where
  "lerp a b t = a + t * (b - a)"

definition grad :: "nat \<Rightarrow> real \<Rightarrow> real \<Rightarrow> real \<Rightarrow> real" where
  "grad hash x y z =
     (let h = hash AND 15;
          u = (if h < 8 then x else y);
          v = (if h < 4 then y else if h = 12 \<or> h = 14 then x else z)
      in (if h AND 1 \<noteq> 0 then - u else u) + (if h AND 2 \<noteq> 0 then - v else v))"

subsection \<open>noise\<close>

text \<open>
  A read of the typed array: \<^verbatim>\<open>undefined\<close> (here \<open>None\<close>) outside \<open>0..length - 1\<close>.
  Arithmetic on \<^verbatim>\<open>undefined\<close> gives \<^verbatim>\<open>NaN\<close>, so one read out of range makes
  the whole result \<open>None\<close>.
\<close>

definition rd :: "nat list \<Rightarrow> nat \<Rightarrow> nat option" where
  "rd p i = (if i < length p then Some (p ! i) else None)"

text \<open>
  \<^verbatim>\<open>Math.floor(x) & 255\<close>: the operand is first wrapped to a signed 32-bit integer
  (ToInt32), then masked.
\<close>

definition to_int32 :: "int \<Rightarrow> int" where
  "to_int32 n = (n + 2 ^ 31) mod 2 ^ 32 - 2 ^ 31"

definition cell :: "real \<Rightarrow> nat" where
  "cell x = nat (to_int32 \<lfloor>x\<rfloor> AND 255)"

definition noise :: "Noise3D \<Rightarrow> real \<Rightarrow> real \<Rightarrow> real \<Rightarrow> real option" where
  "noise this x0 y0 z0 =
     (let X = cell x0; Y = cell y0; Z = cell z0;
          x = x0 - of_int \<lfloor>x0\<rfloor>;
          y = y0 - of_int \<lfloor>y0\<rfloor>;
          z = z0 - of_int \<lfloor>z0\<rfloor>;
          u = fade x; v = fade y; w = fade z
      in do {
        pX \<leftarrow> rd (perm this) X;
        let A = pX + Y;
        pA \<leftarrow> rd (perm this) A;
        let AA = pA + Z;
        pA1 \<leftarrow> rd (perm this) (A + 1);
        let AB = pA1 + Z;
        pX1 \<leftarrow> rd (perm this) (X + 1);
        let B = pX1 + Y;
        pB \<leftarrow> rd (perm this) B;
        let BA = pB + Z;
        pB1 \<leftarrow> rd (perm this) (B + 1);
        let BB = pB1 + Z;
        hAA \<leftarrow> rd (perm this) AA;
        hBA \<leftarrow> rd (perm this) BA;
        hAB \<leftarrow> rd (perm this) AB;
        hBB \<leftarrow> rd (perm this) BB;
        hAA1 \<leftarrow> rd (perm this) (AA + 1);
        hBA1 \<leftarrow> rd (perm this) (BA + 1);
        hAB1 \<leftarrow> rd (perm this) (AB + 1);
        hBB1 \<leftarrow> rd (perm this) (BB + 1);
        Some (lerp
          (lerp
            (lerp (grad hAA x y z) (grad hBA (x - 1) y z) u)
            (lerp (grad hAB x (y - 1) z) (grad hBB (x - 1) (y - 1) z) u)
            v)
          (lerp
            (lerp (grad hAA1 x y (z - 1)) (grad hBA1 (x - 1) y (z - 1)) u)
            (lerp (grad hAB1 x (y - 1) (z - 1)) (grad hBB1 (x - 1) (y - 1) (z - 1)) u)
            v)
          w)
      })"

text \<open>
  The indices at which \<^verbatim>\<open>noise\<close> reads the table, in the order of the source:
  \<^verbatim>\<open>perm[X]\<close>, \<^verbatim>\<open>perm[A]\<close>, \<^verbatim>\<open>perm[A + 1]\<close>, \<^verbatim>\<open>perm[X + 1]\<close>, \<^verbatim>\<open>perm[B]\<close>,
  \<^verbatim>\<open>perm[B + 1]\<close>, then the eight corner hashes. A read whose index depends on an
  earlier read that was out of range is not listed (its index would be \<^verbatim>\<open>NaN\<close>).
\<close>

definition noise_reads :: "Noise3D \<Rightarrow> real \<Rightarrow> real \<Rightarrow> real \<Rightarrow> nat list" where
  "noise_reads this x0 y0 z0 =
     (let X = cell x0; Y = cell y0; Z = cell z0;
          ixA = (case rd (perm this) X of None \<Rightarrow> [] | Some pX \<Rightarrow> [pX + Y, pX + Y + 1]);
          ixB = (case rd (perm this) (X + 1) of None \<Rightarrow> [] | Some pX1 \<Rightarrow> [pX1 + Y, pX1 + Y + 1]);
          corner = (\<lambda>i. case rd (perm this) i of None \<Rightarrow> [] | Some q \<Rightarrow> [q + Z, q + Z + 1])
      in [X] @ ixA @ [X + 1] @ ixB @ concat (map corner (ixA @ ixB)))"

text \<open>
  A call of the method together with the object as it is after the call. \<^verbatim>\<open>noise\<close>
  assigns to no field of \<^verbatim>\<open>this\<close> (it only reassigns its own parameters
  \<^verbatim>\<open>x\<close>, \<^verbatim>\<open>y\<close>, \<^verbatim>\<open>z\<close>), so the object is returned as it was.
\<close>

definition noise_call :: "Noise3D \<Rightarrow> real \<Rightarrow> real \<Rightarrow> real \<Rightarrow> real option \<times> Noise3D" where
  "noise_call this x y z = (noise this x y z, this)"

subsection \<open>fbm, turbulence, ridged\<close>

text \<open>
  Every finite double is smaller in magnitude than \<open>2^1024\<close>, and a product or a sum
  whose value reaches \<open>2^1024\<close> in magnitude is an infinity in JavaScript.
  \<open>overflows r\<close> says this of the exact value \<open>r\<close>. The results of the arithmetic are
  not rounded in this model. The scaled coordinates \<^verbatim>\<open>x * frequency\<close> are exact in
  doubles as well, because \<^verbatim>\<open>frequency\<close> is a power of two.
\<close>

definition overflows :: "real \<Rightarrow> bool" where
  "overflows r \<longleftrightarrow> 2 ^ 1024 \<le> \<bar>r\<bar>"

text \<open>
  \<^verbatim>\<open>this.noise(x * frequency, y * frequency, z * frequency)\<close> in the three loops. When
  \<^verbatim>\<open>frequency\<close> is an infinity, every product is an infinity or \<^verbatim>\<open>NaN\<close>
  (\<^verbatim>\<open>0 * Infinity\<close>); and \<^verbatim>\<open>noise\<close> of a coordinate that is an infinity or \<^verbatim>\<open>NaN\<close>
  is \<^verbatim>\<open>NaN\<close>, because \<^verbatim>\<open>x - Math.floor(x)\<close> is \<^verbatim>\<open>NaN\<close> then and every
  \<^verbatim>\<open>lerp\<close> with it is.
\<close>

definition octave_noise :: "Noise3D \<Rightarrow> real \<Rightarrow> real \<Rightarrow> real \<Rightarrow> real \<Rightarrow> real option" where
  "octave_noise this x y z frequency =
     (if overflows frequency \<or> overflows (x * frequency) \<or> overflows (y * frequency) \<or>
         overflows (z * frequency)
      then None
      else noise this (x * frequency) (y * frequency) (z * frequency))"

text \<open>
  The loops \<^verbatim>\<open>for (let i = 0; i < octaves; i++)\<close> do not use \<open>i\<close> in their bodies;
  they are recursions on the number of iterations that remain, over the tuple of the
  loop variables. The loop state of \<^verbatim>\<open>fbm\<close> and \<^verbatim>\<open>turbulence\<close> is
  \<open>(value, amplitude, frequency, maxValue)\<close>, that of \<^verbatim>\<open>ridged\<close> is
  \<open>(value, amplitude, frequency, weight)\<close>.

  In \<^verbatim>\<open>fbm\<close> the amplitude is a power of the persistence and can overflow. An
  amplitude that is an infinity when it is used makes \<^verbatim>\<open>value\<close> and \<^verbatim>\<open>maxValue\<close>
  infinities or \<^verbatim>\<open>NaN\<close>, and the result \<^verbatim>\<open>NaN\<close>; so does a product
  \<^verbatim>\<open>noise * amplitude\<close> or a \<^verbatim>\<open>value\<close> that overflows. The loop is \<open>None\<close> in these
  cases. An amplitude that overflows in the last iteration is not used.
\<close>

fun fbm_loop ::
  "Noise3D \<Rightarrow> real \<Rightarrow> real \<Rightarrow> real \<Rightarrow> real \<Rightarrow> nat \<Rightarrow> real \<times> real \<times> real \<times> real \<Rightarrow>
   (real \<times> real \<times> real \<times> real) option" where
  "fbm_loop this x y z persistence 0 st = Some st"
| "fbm_loop this x y z persistence (Suc n) (value, amplitude, frequency, maxValue) =
     do {
       nv \<leftarrow> octave_noise this x y z frequency;
       if overflows amplitude \<or> overflows (nv * amplitude) \<or>
          overflows (value + nv * amplitude)
       then None
       else fbm_loop this x y z persistence n
         (value + nv * amplitude, amplitude * persistence, frequency * 2, maxValue + amplitude)
     }"

text \<open>
  \<^verbatim>\<open>return (value / maxValue) * 0.5 + 0.5\<close>. A division by \<open>0\<close> gives an infinity or
  \<^verbatim>\<open>NaN\<close> in JavaScript, hence \<open>None\<close> here. When the sum \<^verbatim>\<open>maxValue\<close> of finite
  amplitudes has overflowed and \<^verbatim>\<open>value\<close> has not, the quotient is \<open>0\<close> and the result
  \<open>0.5\<close>. The defaults of the source are \<open>octaves = 8\<close> and \<open>persistence = 0.5\<close>.
\<close>

definition fbm :: "Noise3D \<Rightarrow> real \<Rightarrow> real \<Rightarrow> real \<Rightarrow> nat \<Rightarrow> real \<Rightarrow> real option" where
  "fbm this x y z octaves persistence =
     do {
       (value, amplitude, frequency, maxValue) \<leftarrow>
         fbm_loop this x y z persistence octaves (0, 1, 1, 0);
       if maxValue = 0 then None
       else if overflows maxValue then Some 0.5
       else if overflows (value / maxValue) then None
       else Some ((value / maxValue) * 0.5 + 0.5)
     }"

text \<open>
  In \<^verbatim>\<open>turbulence\<close> and \<^verbatim>\<open>ridged\<close> the amplitude is a power of \<open>0.5\<close>, and neither
  it nor the sums overflow; only the scaled coordinates and the frequency can.
\<close>

fun turbulence_loop ::
  "Noise3D \<Rightarrow> real \<Rightarrow> real \<Rightarrow> real \<Rightarrow> nat \<Rightarrow> real \<times> real \<times> real \<times> real \<Rightarrow>
   (real \<times> real \<times> real \<times> real) option" where
  "turbulence_loop this x y z 0 st = Some st"
| "turbulence_loop this x y z (Suc n) (value, amplitude, frequency, maxValue) =
     do {
       nv \<leftarrow> octave_noise this x y z frequency;
       turbulence_loop this x y z n
         (value + \<bar>nv\<bar> * amplitude, amplitude * 0.5, frequency * 2, maxValue + amplitude)
     }"

definition turbulence :: "Noise3D \<Rightarrow> real \<Rightarrow> real \<Rightarrow> real \<Rightarrow> nat \<Rightarrow> real option" where
  "turbulence this x y z octaves =
     do {
       (value, amplitude, frequency, maxValue) \<leftarrow>
         turbulence_loop this x y z octaves (0, 1, 1, 0);
       if maxValue = 0 then None else Some (value / maxValue)
     }"

fun ridged_loop ::
  "Noise3D \<Rightarrow> real \<Rightarrow> real \<Rightarrow> real \<Rightarrow> nat \<Rightarrow> real \<times> real \<times> real \<times> real \<Rightarrow>
   (real \<times> real \<times> real \<times> real) option" where
  "ridged_loop this x y z 0 st = Some st"
| "ridged_loop this x y z (Suc n) (value, amplitude, frequency, weight) =
     do {
       nv \<leftarrow> octave_noise this x y z frequency;
       let signal = 1 - \<bar>nv\<bar>;
       let signal = signal * (signal * weight);
       let weight = min 1 (max 0 (signal * 2));
       ridged_loop this x y z n
         (value + signal * amplitude, amplitude * 0.5, frequency * 2, weight)
     }"

definition ridged :: "Noise3D \<Rightarrow> real \<Rightarrow> real \<Rightarrow> real \<Rightarrow> nat \<Rightarrow> real option" where
  "ridged this x y z octaves =
     do {
       (value, amplitude, frequency, weight) \<leftarrow> ridged_loop this x y z octaves (0, 1, 1, 1);
       Some (min 1 (max 0 (value * 0.5)))
     }"

section \<open>Geometry of the generators\<close>





subsection \<open>The asteroid silhouette\<close>





section \<open>Colours, palettes and classification\<close>

subsection \<open>hexToRgb\<close>

text \<open>The object \<^verbatim>\<open>{ r, g, b }\<close> returned by \<^verbatim>\<open>hexToRgb\<close>, as \<open>Rgb r g b\<close>.\<close>

datatype rgb = Rgb nat nat nat

text \<open>One character of the class \<^verbatim>\<open>[a-f\d]\<close> under the flag \<^verbatim>\<open>i\<close>, with its value.\<close>

definition hex_digit :: "char \<Rightarrow> nat option" where
  "hex_digit c =
     (let n = (of_char c :: nat) in
      if 48 \<le> n \<and> n \<le> 57 then Some (n - 48)
      else if 97 \<le> n \<and> n \<le> 102 then Some (n - 87)
      else if 65 \<le> n \<and> n \<le> 70 then Some (n - 55)
      else None)"

text \<open>
  \<^verbatim>\<open>/^#?([a-f\d]{2})([a-f\d]{2})([a-f\d]{2})$/i.exec(hex)\<close>, then \<^verbatim>\<open>parseInt(_, 16)\<close> of
  the three groups, or \<^verbatim>\<open>{ r: 128, g: 128, b: 128 }\<close> when there is no match. The
  argument \<open>None\<close> is \<^verbatim>\<open>undefined\<close>, which \<^verbatim>\<open>exec\<close> converts to the string
  \<^verbatim>\<open>"undefined"\<close>: no match.
\<close>

definition hexToRgb :: "string option \<Rightarrow> rgb" where
  "hexToRgb hex =
     (case hex of
        None \<Rightarrow> Rgb 128 128 128
      | Some s \<Rightarrow>
          (let t = (case s of c # cs \<Rightarrow> if c = CHR ''#'' then cs else s | [] \<Rightarrow> s) in
           case map hex_digit t of
             [Some r1, Some r0, Some g1, Some g0, Some b1, Some b0] \<Rightarrow>
               Rgb (16 * r1 + r0) (16 * g1 + g0) (16 * b1 + b0)
           | _ \<Rightarrow> Rgb 128 128 128))"

subsection \<open>JavaScript objects, property reads and array reads\<close>

text \<open>
  The value of an expression such as \<^verbatim>\<open>STAR_COLORS[stellarClass]\<close>: an object literal
  of the table (with its own properties), a member that the table inherits from
  \<^verbatim>\<open>Object.prototype\<close> (a function or an object, none of which has a property that the
  generators read), or \<^verbatim>\<open>undefined\<close>.
\<close>

datatype 'a jsval = Obj "(string \<times> 'a) list" | Builtin | Undefined

datatype error = TypeError

text \<open>
  The names that every object literal inherits from \<^verbatim>\<open>Object.prototype\<close>. This is
  the language, not the repository: \<^verbatim>\<open>({})['constructor']\<close> is the function
  \<^verbatim>\<open>Object\<close>.
\<close>

definition Object_prototype_names :: "string list" where
  "Object_prototype_names =
     [''constructor'', ''__defineGetter__'', ''__defineSetter__'', ''hasOwnProperty'',
      ''__lookupGetter__'', ''__lookupSetter__'', ''isPrototypeOf'',
      ''propertyIsEnumerable'', ''toString'', ''valueOf'', ''__proto__'',
      ''toLocaleString'']"

text \<open>\<^verbatim>\<open>TABLE[key]\<close> for a table written as an object literal.\<close>

definition js_index :: "(string \<times> (string \<times> 'a) list) list \<Rightarrow> string \<Rightarrow> 'a jsval" where
  "js_index tbl key =
     (case map_of tbl key of
        Some ps \<Rightarrow> Obj ps
      | None \<Rightarrow> if key \<in> set Object_prototype_names then Builtin else Undefined)"

text \<open>\<^verbatim>\<open>a || b\<close> on such values: objects and functions are truthy.\<close>

definition js_or :: "'a jsval \<Rightarrow> 'a jsval \<Rightarrow> 'a jsval" where
  "js_or a b = (case a of Undefined \<Rightarrow> b | _ \<Rightarrow> a)"

text \<open>
  \<^verbatim>\<open>colors.name\<close> for the property names that the source reads (none of them is a name
  of \<^verbatim>\<open>Object.prototype\<close>): \<^verbatim>\<open>undefined\<close> is \<open>Inr None\<close>; reading a property of
  \<^verbatim>\<open>undefined\<close> throws.
\<close>

fun field :: "'a jsval \<Rightarrow> string \<Rightarrow> error + 'a option" where
  "field (Obj ps) name = Inr (map_of ps name)"
| "field Builtin name = Inr None"
| "field Undefined name = Inl TypeError"

text \<open>
  \<^verbatim>\<open>a % b\<close> on integers: the sign is that of the dividend, and \<open>b = 0\<close> gives
  \<^verbatim>\<open>NaN\<close> (\<open>None\<close>).
\<close>

definition js_rem :: "int \<Rightarrow> int \<Rightarrow> int option" where
  "js_rem a b = (if b = 0 then None else Some (sgn a * (\<bar>a\<bar> mod \<bar>b\<bar>)))"

text \<open>
  \<^verbatim>\<open>arr[i]\<close>: throws when \<^verbatim>\<open>arr\<close> is \<^verbatim>\<open>undefined\<close>, and is \<^verbatim>\<open>undefined\<close> when the
  index is \<^verbatim>\<open>NaN\<close> or outside the array.
\<close>

fun elem :: "string list option \<Rightarrow> int option \<Rightarrow> error + string option" where
  "elem None i = Inl TypeError"
| "elem (Some xs) None = Inr None"
| "elem (Some xs) (Some i) =
     Inr (if 0 \<le> i \<and> i < int (length xs) then Some (xs ! nat i) else None)"

text \<open>\<^verbatim>\<open>hexToRgb(arr[i])\<close>.\<close>

definition color_of :: "string list option \<Rightarrow> int option \<Rightarrow> error + rgb" where
  "color_of arr i = (case elem arr i of Inl e \<Rightarrow> Inl e | Inr s \<Rightarrow> Inr (hexToRgb s))"

text \<open>\<^verbatim>\<open>hexToRgb(colors.name[0])\<close>.\<close>

definition first_color :: "string list jsval \<Rightarrow> string \<Rightarrow> error + rgb" where
  "first_color colors name =
     (case field colors name of Inl e \<Rightarrow> Inl e | Inr arr \<Rightarrow> color_of arr (Some 0))"

text \<open>\<^verbatim>\<open>hexToRgb(colors.a ? colors.a[0] : colors.b[0])\<close>: an array is truthy.\<close>

definition first_color_or :: "string list jsval \<Rightarrow> string \<Rightarrow> string \<Rightarrow> error + rgb" where
  "first_color_or colors a b =
     (case field colors a of
        Inl e \<Rightarrow> Inl e
      | Inr (Some arr) \<Rightarrow> color_of (Some arr) (Some 0)
      | Inr None \<Rightarrow> first_color colors b)"

text \<open>\<^verbatim>\<open>hexToRgb(arr[Math.floor(v * arr.length) % arr.length])\<close>; reading
  \<^verbatim>\<open>arr.length\<close> throws when \<^verbatim>\<open>arr\<close> is \<^verbatim>\<open>undefined\<close>.\<close>

definition scaled_color_of :: "string list option \<Rightarrow> real \<Rightarrow> error + rgb" where
  "scaled_color_of arr v =
     (case arr of
        None \<Rightarrow> Inl TypeError
      | Some xs \<Rightarrow> color_of arr (js_rem \<lfloor>v * real (length xs)\<rfloor> (int (length xs))))"

text \<open>\<^verbatim>\<open>hexToRgb(colors.name[Math.floor(v * colors.name.length) % colors.name.length])\<close>.\<close>

definition scaled_color :: "string list jsval \<Rightarrow> string \<Rightarrow> real \<Rightarrow> error + rgb" where
  "scaled_color colors name v =
     (case field colors name of Inl e \<Rightarrow> Inl e | Inr arr \<Rightarrow> scaled_color_of arr v)"

subsection \<open>The colour tables\<close>

definition STAR_COLORS :: "(string \<times> (string \<times> string) list) list" where
  "STAR_COLORS =
     [(''O'', [(''base'', ''#aaccff''), (''bright'', ''#ffffff''), (''glow'', ''#5588ff'')]),
      (''B'', [(''base'', ''#bbddff''), (''bright'', ''#ffffff''), (''glow'', ''#6699ff'')]),
      (''A'', [(''base'', ''#ddeeff''), (''bright'', ''#ffffff''), (''glow'', ''#aabbee'')]),
      (''F'', [(''base'', ''#fffff8''), (''bright'', ''#ffffff''), (''glow'', ''#eeeeee'')]),
      (''G'', [(''base'', ''#fff4ea''), (''bright'', ''#ffffaa''), (''glow'', ''#ffeecc'')]),
      (''K'', [(''base'', ''#ffcc88''), (''bright'', ''#ffee66''), (''glow'', ''#ffaa66'')]),
      (''M'', [(''base'', ''#ff9966''), (''bright'', ''#ffcc44''), (''glow'', ''#ff7744'')]),
      (''BrownDwarf'',
         [(''base'', ''#8b4513''), (''bright'', ''#cd853f''), (''glow'', ''#6a3a1a'')]),
      (''WhiteDwarf'',
         [(''base'', ''#f0f0ff''), (''bright'', ''#ffffff''), (''glow'', ''#d0d0ff'')]),
      (''NeutronStar'',
         [(''base'', ''#00ffff''), (''bright'', ''#ffffff''), (''glow'', ''#00cccc'')]),
      (''Pulsar'', [(''base'', ''#ff00ff''), (''bright'', ''#ffffff''), (''glow'', ''#cc00cc'')]),
      (''RedGiant'',
         [(''base'', ''#ff6347''), (''bright'', ''#ffaa77''), (''glow'', ''#ff4420'')]),
      (''BlueGiant'',
         [(''base'', ''#5080f0''), (''bright'', ''#c0d0ff''), (''glow'', ''#3050c0'')]),
      (''RedSuperGiant'',
         [(''base'', ''#ff2000''), (''bright'', ''#ff8060''), (''glow'', ''#aa0000'')]),
      (''BlueSuperGiant'',
         [(''base'', ''#0066ff''), (''bright'', ''#88ccff''), (''glow'', ''#0030cc'')])]"

definition terran_palette :: "(string \<times> string list) list" where
  "terran_palette =
     [(''deep_ocean'', [''#001428'', ''#002846'', ''#003d5c'']),
      (''ocean'', [''#0066aa'', ''#0088cc'', ''#00aaee'']),
      (''shallow'', [''#33ccff'', ''#66ddff'']),
      (''beach'', [''#c8b090'', ''#e8d0b0'', ''#f8e0d0'']),
      (''grass'', [''#2d5016'', ''#3d7026'', ''#5d9046'', ''#7daa66'', ''#9dcc88'']),
      (''forest'', [''#0a3a0a'', ''#1a4a1a'', ''#2a6a2a'', ''#4a8a4a'']),
      (''mountain'', [''#4b3b2b'', ''#6b5b4b'', ''#8b7b6b'', ''#ab9b8b'']),
      (''snow'', [''#d8e8f8'', ''#f0f8ff'', ''#ffffff'']),
      (''cloud'', [''#ffffff'', ''#f8fcff'']),
      (''cities'', [''#ffdd88'', ''#ffee99''])]"

text \<open>The object literal \<^verbatim>\<open>PLANET_COLORS\<close> as it is written.\<close>

definition PLANET_COLORS_literal :: "(string \<times> (string \<times> string list) list) list" where
  "PLANET_COLORS_literal =
     [(''terran'', terran_palette),
      (''rocky'',
         [(''dark'', [''#1a1512'', ''#2a251f'', ''#3a352c'']),
          (''surface'', [''#3a2d22'', ''#4a3d32'', ''#6a5d52'', ''#8a7d72'']),
          (''crater'', [''#0a0502'', ''#1a1512'']),
          (''highland'', [''#aa9d92'', ''#cabaa0'', ''#eadac0'']),
          (''dust'', [''#b89060'', ''#c8a070''])]),
      (''desert'',
         [(''sand_dark'', [''#b89060'', ''#c8a070'']),
          (''sand'', [''#d2b48c'', ''#e6c8a0'', ''#fadcb4'']),
          (''dune_shadow'', [''#a07850'', ''#b08860'']),
          (''rock'', [''#6a5a4a'', ''#7a6a5a'', ''#8a7a6a'', ''#aa9a8a'']),
          (''canyon_deep'', [''#503020'', ''#604030'']),
          (''canyon'', [''#705040'', ''#907060''])]),
      (''ice'',
         [(''deep'', [''#2060a0'', ''#3070a0'', ''#4080b0'']),
          (''surface'', [''#70b0d0'', ''#80c8e0'', ''#a0e0f0'', ''#c0f0ff'']),
          (''crevasse'', [''#081018'', ''#102030'', ''#203040'']),
          (''snow'', [''#d0e8ff'', ''#e0f0ff'', ''#f0f8ff'', ''#ffffff''])]),
      (''lava'',
         [(''molten_bright'', [''#ffff00'', ''#ffee00'']),
          (''molten_hot'', [''#ffaa00'', ''#ff8800'', ''#ff6600'']),
          (''molten'', [''#ff4400'', ''#ff3300'']),
          (''cooling'', [''#ff2200'', ''#cc0000'', ''#aa0000'']),
          (''crust_warm'', [''#3a2a2a'', ''#4a3a3a'', ''#5a4a4a'']),
          (''crust'', [''#1a1a1a'', ''#2a2a2a''])]),
      (''ocean'',
         [(''deep'', [''#000814'', ''#001428'', ''#002846'', ''#004878'']),
          (''mid'', [''#0066aa'', ''#0088cc'', ''#0098dc'']),
          (''surface'', [''#20c0ff'', ''#40d0ff'', ''#60e0ff'']),
          (''foam'', [''#d0f8ff'', ''#e0fcff'', ''#ffffff''])]),
      (''jungle'',
         [(''canopy_dark'', [''#0a4a0a'', ''#1a5a1a'']),
          (''canopy'', [''#2a7a2a'', ''#4a9a4a'', ''#6aba6a'']),
          (''understory'', [''#0a3a0a'', ''#1a4a1a'', ''#2a6a2a'']),
          (''flower'', [''#ff6688'', ''#ff88aa'', ''#ffaacc'']),
          (''river'', [''#4a7a7a'', ''#6a9a9a''])]),
      (''gas_giant'',
         [(''band1_dark'', [''#6b4914'', ''#7b5914'']),
          (''band1'', [''#8b6914'', ''#9b7934'', ''#ab8934'']),
          (''band2_light'', [''#e2c594'', ''#f2d5a4'', ''#fce5b4'']),
          (''band2'', [''#c49564'', ''#d4a574'']),
          (''storm'', [''#cc3322'', ''#ee6644'', ''#ff8866'']),
          (''cloud'', [''#ffffff'', ''#f8f8ff''])])]"

definition moreTypes :: "string list" where
  "moreTypes =
     [''frozen'', ''tundra'', ''volcanic'', ''carbon'', ''crystal'', ''metal'',
      ''eyeball'', ''tidally_locked'', ''radioactive'', ''super_earth'']"

text \<open>
  \<^verbatim>\<open>moreTypes.forEach(type => { if (!PLANET_COLORS[type]) PLANET_COLORS[type] =
  { ...PLANET_COLORS.terran }; })\<close>: a type that the table does not have gets a copy of
  the terran palette.
\<close>

definition add_type ::
  "string \<Rightarrow> (string \<times> (string \<times> string list) list) list \<Rightarrow>
   (string \<times> (string \<times> string list) list) list" where
  "add_type type tbl =
     (case js_index tbl type of
        Undefined \<Rightarrow>
          (case js_index tbl ''terran'' of Obj ps \<Rightarrow> tbl @ [(type, ps)] | _ \<Rightarrow> tbl @ [(type, [])])
      | _ \<Rightarrow> tbl)"

definition PLANET_COLORS :: "(string \<times> (string \<times> string list) list) list" where
  "PLANET_COLORS = fold add_type moreTypes PLANET_COLORS_literal"

text \<open>\<^verbatim>\<open>const colors = STAR_COLORS[stellarClass] || STAR_COLORS['G']\<close> in
  \<^verbatim>\<open>generateStar\<close>.\<close>

definition star_colors :: "string \<Rightarrow> string jsval" where
  "star_colors stellarClass = js_or (js_index STAR_COLORS stellarClass) (js_index STAR_COLORS ''G'')"

text \<open>\<^verbatim>\<open>const colors = PLANET_COLORS[type] || PLANET_COLORS.terran\<close> in
  \<^verbatim>\<open>generatePlanet\<close>.\<close>

definition planet_colors :: "string \<Rightarrow> string list jsval" where
  "planet_colors type = js_or (js_index PLANET_COLORS type) (js_index PLANET_COLORS ''terran'')"

subsection \<open>getPlanetSurfaceColor\<close>

text \<open>
  The gas-giant branch. A noise value that is \<^verbatim>\<open>NaN\<close> (\<open>None\<close>) makes every
  comparison false and the array index \<^verbatim>\<open>NaN\<close>, as in JavaScript. The local
  \<^verbatim>\<open>turbulence\<close> of the source is \<open>turb\<close> here.
\<close>

definition gas_giant_color ::
  "string list jsval \<Rightarrow> real \<Rightarrow> real \<Rightarrow> real \<Rightarrow> Noise3D \<Rightarrow> error + rgb" where
  "gas_giant_color colors texU texV latitude nf =
     (let bandNoise = fbm nf (texU * 1) (texV * 8) 0 6 0.5;
          bandPattern = map_option (\<lambda>bn. sin (latitude * 15 + bn * 4)) bandNoise;
          turb = map_option (\<lambda>t. t * 0.3) (turbulence nf (texU * 4) (texV * 2) 0 6);
          bandValue =
            (case (bandPattern, turb) of
               (Some bp, Some t) \<Rightarrow> Some ((bp + 1) * 0.5 + t)
             | _ \<Rightarrow> None);
          colorKey =
            (case bandValue of
               Some bv \<Rightarrow>
                 if bv < 0.25 then ''band1_dark''
                 else if bv < 0.5 then ''band1''
                 else if bv < 0.75 then ''band2''
                 else ''band2_light''
             | None \<Rightarrow> ''band2_light'')
      in case field colors colorKey of
           Inl e \<Rightarrow> Inl e
         | Inr keyed \<Rightarrow>
             (case field colors ''band1'' of
                Inl e \<Rightarrow> Inl e
              | Inr band1 \<Rightarrow>
                  (let bandColors =
                         (case keyed of
                            Some arr \<Rightarrow> arr
                          | None \<Rightarrow> (case band1 of Some arr \<Rightarrow> arr | None \<Rightarrow> [''#aa8844'']));
                       colorIndex =
                         (case bandValue of
                            Some bv \<Rightarrow>
                              js_rem \<lfloor>bv * real (length bandColors)\<rfloor> (int (length bandColors))
                          | None \<Rightarrow> None);
                       stormNoise = fbm nf (texU * 3) (texV * 3) 50 5 0.5
                   in if (case stormNoise of Some sn \<Rightarrow> sn > 0.75 | None \<Rightarrow> False) \<and>
                         \<bar>latitude\<bar> < 0.5
                      then
                        (case field colors ''storm'' of
                           Inl e \<Rightarrow> Inl e
                         | Inr storm \<Rightarrow>
                             (let stormColors =
                                    (case storm of Some arr \<Rightarrow> arr | None \<Rightarrow> [''#cc4422''])
                              in color_of (Some stormColors) (Some 0)))
                      else color_of (Some bandColors) colorIndex)))"

text \<open>
  \<^verbatim>\<open>getPlanetSurfaceColor(type, elevation, moisture, temperature, colors, isGasGiant,
  texU, texV, latitude, noise)\<close>; the \<^verbatim>\<open>switch (type)\<close> is the chain of comparisons of
  \<open>type\<close> with the case labels, in their order. The result is \<open>Inl TypeError\<close> where
  the source would throw.
\<close>

definition getPlanetSurfaceColor ::
  "string \<Rightarrow> real \<Rightarrow> real \<Rightarrow> real \<Rightarrow> string list jsval \<Rightarrow> bool \<Rightarrow> real \<Rightarrow> real \<Rightarrow> real \<Rightarrow>
   Noise3D \<Rightarrow> error + rgb" where
  "getPlanetSurfaceColor type elevation moisture temperature colors isGasGiant texU texV
     latitude nf =
     (if isGasGiant then gas_giant_color colors texU texV latitude nf
      else if type = ''terran'' then
        (if elevation < 0.35 then
           (let depth = 0.35 - elevation in
            if depth > 0.15 then first_color colors ''deep_ocean''
            else if depth > 0.08 then first_color colors ''ocean''
            else first_color colors ''shallow'')
         else if elevation < 0.37 then first_color colors ''beach''
         else if elevation > 0.8 then
           (if elevation > 0.88 then first_color colors ''snow''
            else first_color colors ''mountain'')
         else if moisture > 0.6 then scaled_color colors ''forest'' moisture
         else scaled_color colors ''grass'' elevation)
      else if type = ''desert'' then
        (if elevation < 0.3 then first_color_or colors ''canyon_deep'' ''sand_dark''
         else if elevation > 0.75 then first_color colors ''rock''
         else
           (let duneNoise = (sin (texU * 30 + texV * 20) > 0) in
            if duneNoise then first_color colors ''sand'' else first_color colors ''sand_dark''))
      else if type = ''ice'' then
        (if elevation < 0.25 then first_color colors ''crevasse''
         else if elevation > 0.8 then first_color colors ''snow''
         else scaled_color colors ''surface'' elevation)
      else if type = ''lava'' then
        (if elevation < 0.38 then
           (let heat = 1 - elevation / 0.38 in
            if heat > 0.85 then first_color_or colors ''molten_bright'' ''molten_hot''
            else if heat > 0.6 then first_color colors ''molten_hot''
            else if heat > 0.4 then first_color colors ''molten''
            else first_color colors ''cooling'')
         else if elevation > 0.6 then first_color colors ''crust_warm''
         else first_color colors ''crust'')
      else if type = ''ocean'' then
        (let depth = 1 - elevation in
         if depth > 0.7 then first_color colors ''deep''
         else if depth > 0.4 then first_color colors ''mid''
         else if depth > 0.15 then first_color colors ''surface''
         else first_color colors ''foam'')
      else if type = ''jungle'' then
        (if elevation < 0.3 then first_color colors ''river''
         else if moisture > 0.6 then scaled_color colors ''canopy'' elevation
         else first_color_or colors ''understory'' ''canopy_dark'')
      else
        (case field colors ''surface'' of
           Inl e \<Rightarrow> Inl e
         | Inr surface \<Rightarrow>
             (case field colors ''grass'' of
                Inl e \<Rightarrow> Inl e
              | Inr grass \<Rightarrow>
                  (let rockColors =
                         (case surface of
                            Some arr \<Rightarrow> arr
                          | None \<Rightarrow> (case grass of Some arr \<Rightarrow> arr | None \<Rightarrow> [''#888888'']))
                   in scaled_color_of (Some rockColors) elevation))))"

text \<open>
  The call in \<^verbatim>\<open>generatePlanet\<close>: the palette is looked up from the type, and
  \<^verbatim>\<open>isGasGiant = (type === 'gas_giant')\<close>.
\<close>

definition planet_surface_color ::
  "string \<Rightarrow> real \<Rightarrow> real \<Rightarrow> real \<Rightarrow> real \<Rightarrow> real \<Rightarrow> real \<Rightarrow> Noise3D \<Rightarrow> error + rgb" where
  "planet_surface_color type elevation moisture temperature texU texV phi nf =
     getPlanetSurfaceColor type elevation moisture temperature (planet_colors type)
       (type = ''gas_giant'') texU texV phi nf"

subsection \<open>The terrain samples of generatePlanet\<close>




section \<open>The planet atlas\<close>

subsection \<open>Configuration\<close>

definition planetTypes :: "string list" where
  "planetTypes =
     [''terran'', ''rocky'', ''desert'', ''ice'', ''frozen'', ''tundra'',
      ''lava'', ''volcanic'', ''ocean'', ''carbon'', ''crystal'', ''metal'',
      ''eyeball'', ''tidally_locked'', ''radioactive'', ''super_earth'',
      ''jungle'', ''gas_giant'']"

definition planetSizes :: "(string \<times> nat) list" where
  "planetSizes =
     [(''terran'', 800), (''rocky'', 600), (''desert'', 700),
      (''ice'', 650), (''frozen'', 600), (''tundra'', 650),
      (''lava'', 650), (''volcanic'', 700), (''ocean'', 850),
      (''carbon'', 600), (''crystal'', 600), (''metal'', 550),
      (''eyeball'', 650), (''tidally_locked'', 650),
      (''radioactive'', 600), (''super_earth'', 1100),
      (''jungle'', 850), (''gas_giant'', 1400)]"

definition planetFrames :: nat where
  "planetFrames = 24"

definition planetPixelSize :: nat where
  "planetPixelSize = 2"

subsection \<open>The canvas\<close>

text \<open>
  Of the canvas, its dimensions and the alpha channel are modelled: \<open>alpha c X Y\<close> is
  the opacity of the pixel \<open>(X, Y)\<close>, from 0 (transparent, alpha byte 0) to 1 (opaque,
  alpha byte 255). The colour channels are left out: neither the value of \<^verbatim>\<open>a\<close> nor
  the test \<^verbatim>\<open>a > 0\<close> before \<^verbatim>\<open>fillRect\<close> depends on \<^verbatim>\<open>r\<close>, \<^verbatim>\<open>g\<close>, \<^verbatim>\<open>b\<close>,
  which are finite numbers in this model.
\<close>

record canvas =
  width :: nat
  height :: nat
  alpha :: "nat \<Rightarrow> nat \<Rightarrow> real"

text \<open>\<^verbatim>\<open>createCanvas(width, height)\<close>: a transparent canvas.\<close>

definition createCanvas :: "nat \<Rightarrow> nat \<Rightarrow> canvas" where
  "createCanvas w h = \<lparr>width = w, height = h, alpha = (\<lambda>X Y. 0)\<rparr>"

text \<open>
  \<^verbatim>\<open>ctx.fillStyle = `rgba(r, g, b, ${a})`; ctx.fillRect(x, y, w, h)\<close> with the default
  compositing (source over destination): inside the rectangle and the canvas the new
  opacity is \<open>a + old \<cdot> (1 - a)\<close>.
\<close>

definition fillRect :: "canvas \<Rightarrow> real \<Rightarrow> nat \<Rightarrow> nat \<Rightarrow> nat \<Rightarrow> nat \<Rightarrow> canvas" where
  "fillRect c a x y w h =
     c\<lparr>alpha := (\<lambda>X Y.
        if x \<le> X \<and> X < x + w \<and> y \<le> Y \<and> Y < y + h \<and> X < width c \<and> Y < height c
        then a + alpha c X Y * (1 - a)
        else alpha c X Y)\<rparr>"

subsection \<open>generatePlanet\<close>

text \<open>
  The distance \<^verbatim>\<open>dist\<close> of the centre of the block \<open>(px, py)\<close> from the centre of the
  body; \<open>sz\<close> is the \<^verbatim>\<open>size\<close> of the source.
\<close>

definition block_dist :: "nat \<Rightarrow> nat \<Rightarrow> nat \<Rightarrow> nat \<Rightarrow> real" where
  "block_dist sz pixelSize px py =
     (let centerX = real sz / 2;
          centerY = real sz / 2;
          x = real px * real pixelSize + real pixelSize / 2;
          y = real py * real pixelSize + real pixelSize / 2;
          dx = x - centerX;
          dy = y - centerY
      in sqrt (dx * dx + dy * dy))"

text \<open>
  The value of \<^verbatim>\<open>a\<close> when the block is drawn: 0 at first, the glow of the atmosphere
  between \<open>radius\<close> and \<open>1.15 radius\<close>, and 255 on the disc; \<open>d\<close> is the
  \<^verbatim>\<open>dist\<close> of the source.
\<close>

definition planet_block_alpha :: "bool \<Rightarrow> real \<Rightarrow> real \<Rightarrow> real" where
  "planet_block_alpha hasAtmosphere radius d =
     (let a = 0;
          a = (if hasAtmosphere \<and> d > radius \<and> d < radius * 1.15 then
                 (let atmosDist = (d - radius) / (radius * 0.15);
                      atmosIntensity = (1 - atmosDist)\<^sup>2
                  in atmosIntensity * 150)
               else a);
          a = (if d \<le> radius then 255 else a)
      in a)"

text \<open>The body of the pixel loops for one block: \<^verbatim>\<open>if (a > 0) { fillStyle; fillRect }\<close>.\<close>

definition draw_planet_block :: "bool \<Rightarrow> nat \<Rightarrow> nat \<Rightarrow> nat \<Rightarrow> nat \<Rightarrow> nat \<Rightarrow> canvas \<Rightarrow> canvas" where
  "draw_planet_block hasAtmosphere sz pixelSize frame py px c =
     (let offsetX = frame * sz;
          radius = real sz * 0.42;
          dist = block_dist sz pixelSize px py;
          a = planet_block_alpha hasAtmosphere radius dist
      in if a > 0 then fillRect c (a / 255) (offsetX + px * pixelSize) (py * pixelSize)
                         pixelSize pixelSize
         else c)"

text \<open>
  The three loops over \<open>frame\<close>, \<open>py\<close> and \<open>px\<close>, on the canvas
  \<^verbatim>\<open>createCanvas(size * frames, size)\<close>, with
  \<^verbatim>\<open>pixelWidth = pixelHeight = Math.ceil(size / pixelSize)\<close>.
\<close>

definition render_planet :: "bool \<Rightarrow> nat \<Rightarrow> nat \<Rightarrow> nat \<Rightarrow> canvas" where
  "render_planet hasAtmosphere sz frames pixelSize =
     (let pixelWidth = nat \<lceil>real sz / real pixelSize\<rceil>;
          pixelHeight = nat \<lceil>real sz / real pixelSize\<rceil>
      in fold (\<lambda>frame c.
           fold (\<lambda>py c.
             fold (\<lambda>px c. draw_planet_block hasAtmosphere sz pixelSize frame py px c)
               [0..<pixelWidth] c)
             [0..<pixelHeight] c)
           [0..<frames] (createCanvas (sz * frames) sz))"

text \<open>
  \<^verbatim>\<open>generatePlanet(type, index)\<close>, as far as the canvas is concerned. For a type
  without an entry of its own in \<^verbatim>\<open>CONFIG.planetSizes\<close> the size is not a number
  (\<^verbatim>\<open>undefined\<close>, or a member inherited from \<^verbatim>\<open>Object.prototype\<close>), and
  \<^verbatim>\<open>createCanvas\<close> is called with \<^verbatim>\<open>NaN\<close> as the width before any block is
  classified: no sprite is made, which is \<open>None\<close> here.
\<close>

definition generatePlanet :: "string \<Rightarrow> canvas option" where
  "generatePlanet type =
     (case map_of planetSizes type of
        None \<Rightarrow> None
      | Some sz \<Rightarrow>
          (let frames = planetFrames;
               pixelSize = planetPixelSize;
               hasAtmosphere = (type \<in> set [''terran'', ''ocean'', ''jungle'', ''super_earth''])
           in Some (render_planet hasAtmosphere sz frames pixelSize)))"

subsection \<open>generateStar: the size, the canvas and the three colours\<close>

definition stellarClasses :: "string list" where
  "stellarClasses =
     [''O'', ''B'', ''A'', ''F'', ''G'', ''K'', ''M'',
      ''BrownDwarf'', ''WhiteDwarf'', ''NeutronStar'', ''Pulsar'',
      ''RedGiant'', ''BlueGiant'', ''RedSuperGiant'', ''BlueSuperGiant'']"

definition starSizes :: "(string \<times> nat) list" where
  "starSizes =
     [(''O'', 1400), (''B'', 1300), (''A'', 1100), (''F'', 1200), (''G'', 1200),
      (''K'', 900), (''M'', 600), (''BrownDwarf'', 600), (''WhiteDwarf'', 600),
      (''NeutronStar'', 350), (''Pulsar'', 400),
      (''RedGiant'', 1500), (''BlueGiant'', 1500),
      (''RedSuperGiant'', 1600), (''BlueSuperGiant'', 1500)]"

definition starFrames :: nat where
  "starFrames = 8"

text \<open>
  \<^verbatim>\<open>generateStar(stellarClass)\<close> up to the three colours:
  \<^verbatim>\<open>size = CONFIG.starSizes[stellarClass]\<close>, the lookup of \<^verbatim>\<open>colors\<close>,
  \<^verbatim>\<open>canvas = createCanvas(size * frames, size)\<close>, and then
  \<^verbatim>\<open>baseColor = hexToRgb(colors.base)\<close>, \<^verbatim>\<open>brightColor = hexToRgb(colors.bright)\<close>,
  \<^verbatim>\<open>glowColor = hexToRgb(colors.glow)\<close>. For a class without an entry of its own in
  \<^verbatim>\<open>CONFIG.starSizes\<close> the size is not a number, and \<^verbatim>\<open>createCanvas\<close> is called
  with \<^verbatim>\<open>NaN\<close> as the width before any colour is computed: no sprite is made, which
  is \<open>None\<close> here, whatever the lookup of the colours gave. Otherwise the result is the
  canvas with the three colours, or \<open>TypeError\<close> where reading a property of
  \<^verbatim>\<open>colors\<close> would throw.
\<close>

definition generateStar_init :: "string \<Rightarrow> (error + canvas \<times> rgb \<times> rgb \<times> rgb) option" where
  "generateStar_init stellarClass =
     (case map_of starSizes stellarClass of
        None \<Rightarrow> None
      | Some sz \<Rightarrow>
          (let frames = starFrames;
               colors = star_colors stellarClass;
               canvas = createCanvas (sz * frames) sz
           in Some
             (case field colors ''base'' of
                Inl e \<Rightarrow> Inl e
              | Inr base \<Rightarrow>
                  (case field colors ''bright'' of
                     Inl e \<Rightarrow> Inl e
                   | Inr bright \<Rightarrow>
                       (case field colors ''glow'' of
                          Inl e \<Rightarrow> Inl e
                        | Inr glow \<Rightarrow>
                            Inr (canvas, hexToRgb base, hexToRgb bright, hexToRgb glow))))))"

subsection \<open>Auxiliary functions for evaluating single table entries\<close>

text \<open>
  Not part of the program. \<open>schedule i rng\<close> lists the indices \<open>j\<close> that the loop
  of \<open>shuffle i rng\<close> draws, for the counters \<open>i, i - 1, \<dots>, 1\<close>; \<open>follow i js pos\<close>
  follows one entry through these swaps and returns the index at which the entry that
  starts at index \<open>pos\<close> ends (lemma \<open>shuffle_follow\<close>). They are used to evaluate single
  entries of the table of a concrete seed without rewriting the whole array 255 times;
  \<open>draw\<close> is one step of \<open>schedule\<close> with the new generator state as its argument.
\<close>

fun schedule :: "nat \<Rightarrow> nat \<Rightarrow> nat list" where
  "schedule 0 rng = []"
| "schedule (Suc i) rng = (let rng' = lcg rng in (rng' mod (Suc i + 1)) # schedule i rng')"

fun follow :: "nat \<Rightarrow> nat list \<Rightarrow> nat \<Rightarrow> nat" where
  "follow i [] pos = pos"
| "follow i (j # js) pos = follow (i - 1) js (if pos = i then j else if pos = j then i else pos)"

definition draw :: "nat \<Rightarrow> nat \<Rightarrow> nat list" where
  "draw i r = (r mod (i + 1)) # schedule (i - 1) r"

section \<open>Properties of the permutation table\<close>

lemma lcg_exact: "rng < 2 ^ 32 \<Longrightarrow> rng * 1664525 + 1013904223 < (2::nat) ^ 53"
proof -
  assume "rng < 2 ^ 32"
  then have "rng * 1664525 \<le> 2 ^ 32 * (1664525::nat)"
    by (intro mult_le_mono1) simp
  then show ?thesis by simp
qed

lemma lcg_less: "lcg rng < 2 ^ 32"
  by (simp add: lcg_def)

lemma to_uint32_less: "to_uint32 s < 2 ^ 32"
  by (simp add: to_uint32_def nat_less_iff)

lemma length_swap [simp]: "length (swap p i j) = length p"
  by (simp add: swap_def)

lemma mset_swap_table: "i < length p \<Longrightarrow> j < length p \<Longrightarrow> mset (swap p i j) = mset p"
  unfolding swap_def by (rule mset_swap)

lemma length_shuffle [simp]: "length (shuffle i rng p) = length p"
  by (induction i arbitrary: rng p) (simp_all add: Let_def)

lemma mset_shuffle: "i < length p \<Longrightarrow> mset (shuffle i rng p) = mset p"
proof (induction i arbitrary: rng p)
  case 0
  show ?case by simp
next
  case (Suc i)
  let ?j = "lcg rng mod (Suc i + 1)"
  have j: "?j < length p"
  proof -
    have "?j < Suc i + 1" by (rule mod_less_divisor) simp
    then have "?j \<le> Suc i" by simp
    then show ?thesis using Suc.prems by (rule le_less_trans)
  qed
  have "mset (shuffle i (lcg rng) (swap p (Suc i) ?j)) = mset (swap p (Suc i) ?j)"
    using Suc.prems by (intro Suc.IH) simp
  also have "\<dots> = mset p"
    using Suc.prems j by (rule mset_swap_table)
  finally show ?case by (simp add: Let_def)
qed

lemma shuffled_identity:
  "mset (shuffle 255 rng [0..<256]) = mset [0..<256]"
  by (rule mset_shuffle) simp

lemma shuffled_identity_set: "set (shuffle 255 rng [0..<256]) = {0..<256}"
proof -
  have "set (shuffle 255 rng [0..<256]) = set [0..<256]"
    by (rule mset_eq_setD [OF shuffled_identity])
  then show ?thesis by simp
qed

lemma shuffled_identity_distinct: "distinct (shuffle 255 rng [0..<256])"
proof -
  have "distinct [0..<256::nat]" by simp
  then show ?thesis
    by (simp only: mset_eq_imp_distinct_iff [OF shuffled_identity])
qed

lemma length_initPermutation [simp]: "length (initPermutation s) = 512"
  by (simp add: initPermutation_def Let_def)

lemma nth_initPermutation:
  "i < 512 \<Longrightarrow> initPermutation s ! i = shuffle 255 (to_uint32 s) [0..<256] ! (i mod 256)"
  by (simp add: initPermutation_def Let_def del: upt_Suc)

lemma take_initPermutation:
  "take 256 (initPermutation s) = shuffle 255 (to_uint32 s) [0..<256]"
  by (rule nth_equalityI) (simp_all add: nth_initPermutation)

lemma initPermutation_byte: "i < 512 \<Longrightarrow> initPermutation s ! i < 256"
proof -
  assume i: "i < 512"
  let ?p = "shuffle 255 (to_uint32 s) [0..<256]"
  have "?p ! (i mod 256) \<in> set ?p"
    by (rule nth_mem) simp
  then show ?thesis
    using i by (simp add: nth_initPermutation shuffled_identity_set)
qed


lemma nth_swap_track:
  assumes "a < length p" and "b < length p" and "pos < length p"
  shows "swap p a b ! (if pos = a then b else if pos = b then a else pos) = p ! pos"
  using assms by (simp add: swap_def nth_list_update)

lemma shuffle_follow:
  "i < length p \<Longrightarrow> pos < length p \<Longrightarrow>
   shuffle i rng p ! follow i (schedule i rng) pos = p ! pos"
proof (induction i arbitrary: rng p pos)
  case 0
  show ?case by simp
next
  case (Suc i)
  let ?j = "lcg rng mod (Suc i + 1)"
  let ?pos = "if pos = Suc i then ?j else if pos = ?j then Suc i else pos"
  have j: "?j < length p"
  proof -
    have "?j < Suc i + 1" by (rule mod_less_divisor) simp
    then have "?j \<le> Suc i" by simp
    then show ?thesis using Suc.prems(1) by (rule le_less_trans)
  qed
  have pos: "?pos < length (swap p (Suc i) ?j)"
    using Suc.prems j by simp
  have "shuffle (Suc i) rng p ! follow (Suc i) (schedule (Suc i) rng) pos =
      shuffle i (lcg rng) (swap p (Suc i) ?j) ! follow i (schedule i (lcg rng)) ?pos"
    by (simp only: shuffle.simps schedule.simps follow.simps Let_def diff_Suc_1)
  also have "\<dots> = swap p (Suc i) ?j ! ?pos"
    using Suc.prems(1) pos by (intro Suc.IH) simp_all
  also have "\<dots> = p ! pos"
    using Suc.prems(1) j Suc.prems(2) by (rule nth_swap_track)
  finally show ?case .
qed

lemma table_entry:
  assumes "follow 255 (schedule 255 (to_uint32 s)) v = i mod 256" and "v < 256" and "i < 512"
  shows "perm (Noise3D_new s) ! i = v"
proof -
  have "perm (Noise3D_new s) ! i =
      shuffle 255 (to_uint32 s) [0..<256] ! follow 255 (schedule 255 (to_uint32 s)) v"
    using assms(1,3) by (simp add: Noise3D_new_def nth_initPermutation)
  also have "\<dots> = [0..<256] ! v"
    using assms(2) by (intro shuffle_follow) simp_all
  also have "\<dots> = v"
    using assms(2) by (simp del: upt_Suc)
  finally show ?thesis .
qed

lemma schedule_numeral: "schedule (numeral n) rng = draw (numeral n) (lcg rng)"
proof -
  have a: "numeral n = Suc (pred_numeral n)" by (simp add: numeral_eq_Suc)
  show ?thesis by (subst (1 2) a) (simp add: draw_def Let_def)
qed

lemma draw_numeral:
  "draw (numeral n) r = (r mod numeral (n + Num.One)) # schedule (pred_numeral n) r"
proof -
  have a: "numeral n - 1 = pred_numeral n" by (simp add: numeral_eq_Suc)
  have b: "numeral (n + Num.One) = numeral n + (1::nat)" by (rule numeral_plus_one [symmetric])
  show ?thesis unfolding draw_def a b ..
qed

lemma schedule_one: "schedule (Suc 0) rng = [lcg rng mod 2]"
  by (simp add: Let_def numeral_2_eq_2)

lemma follow_numeral:
  "follow (numeral n) (j # js) pos =
     follow (pred_numeral n) js
       (if pos = numeral n then j else if pos = j then numeral n else pos)"
  by (simp add: numeral_eq_Suc)

lemma length_table [simp]: "length (perm (Noise3D_new s)) = 512"
  by (simp add: Noise3D_new_def)

lemma table_nth_le: "i < 512 \<Longrightarrow> perm (Noise3D_new s) ! i \<le> 255"
  using initPermutation_byte [of i s] by (simp add: Noise3D_new_def)

lemma rd_table: "i < 512 \<Longrightarrow> rd (perm (Noise3D_new s)) i = Some (perm (Noise3D_new s) ! i)"
  by (simp add: rd_def)

section \<open>Lattice cells and table reads\<close>

lemma to_int32_mod_256: "to_int32 n mod 256 = n mod 256"
proof -
  have d: "(256::int) dvd 2 ^ 32" by simp
  have "to_int32 n mod 256 = ((n + 2 ^ 31) mod 2 ^ 32 mod 256 - 2 ^ 31 mod 256) mod 256"
    unfolding to_int32_def by (rule mod_diff_eq [symmetric])
  also have "(n + 2 ^ 31) mod 2 ^ 32 mod 256 = (n + 2 ^ 31) mod 256"
    by (rule mod_mod_cancel [OF d])
  also have "((n + 2 ^ 31) mod 256 - 2 ^ 31 mod 256) mod 256 = (n + 2 ^ 31 - 2 ^ 31) mod 256"
    by (rule mod_diff_eq)
  finally show ?thesis by simp
qed

lemma cell_eq_mod: "cell x = nat (\<lfloor>x\<rfloor> mod 256)"
proof -
  have "to_int32 \<lfloor>x\<rfloor> AND 255 = to_int32 \<lfloor>x\<rfloor> AND mask 8"
    by (simp add: mask_eq_exp_minus_1)
  also have "\<dots> = to_int32 \<lfloor>x\<rfloor> mod 2 ^ 8"
    by (simp only: take_bit_eq_mask [symmetric] take_bit_eq_mod)
  finally show ?thesis
    by (simp add: cell_def to_int32_mod_256)
qed

lemma cell_le: "cell x \<le> 255"
proof -
  have "\<lfloor>x\<rfloor> mod 256 < 256" by simp
  then show ?thesis unfolding cell_eq_mod by linarith
qed

lemma noise_reads_table:
  fixes s :: int and x y z :: real
  defines "t \<equiv> perm (Noise3D_new s)"
  defines "X \<equiv> cell x" and "Y \<equiv> cell y" and "Z \<equiv> cell z"
  defines "A \<equiv> t ! X + Y" and "B \<equiv> t ! Suc X + Y"
  shows "noise_reads (Noise3D_new s) x y z =
    [X, A, A + 1, X + 1, B, B + 1,
     t ! A + Z, t ! A + Z + 1, t ! (A + 1) + Z, t ! (A + 1) + Z + 1,
     t ! B + Z, t ! B + Z + 1, t ! (B + 1) + Z, t ! (B + 1) + Z + 1]"
proof -
  have X: "X \<le> 255" and Y: "Y \<le> 255" and Z: "Z \<le> 255"
    by (simp_all add: X_def Y_def Z_def cell_le)
  have b: "t ! i \<le> 255" if "i < 512" for i
    using that by (simp add: t_def table_nth_le)
  have r: "rd t i = Some (t ! i)" if "i < 512" for i
    using that by (simp add: t_def rd_table)
  have A: "A \<le> 510" using b [of X] X Y by (simp add: A_def)
  have B: "B \<le> 510" using b [of "Suc X"] X Y by (simp add: B_def)
  have rX: "rd t X = Some (t ! X)" and rX1: "rd t (Suc X) = Some (t ! Suc X)"
    using X by (simp_all add: r)
  have rA: "rd t A = Some (t ! A)" and rA1: "rd t (Suc A) = Some (t ! Suc A)"
    using A by (simp_all add: r)
  have rB: "rd t B = Some (t ! B)" and rB1: "rd t (Suc B) = Some (t ! Suc B)"
    using B by (simp_all add: r)
  show ?thesis
    unfolding noise_reads_def Let_def t_def [symmetric] X_def [symmetric]
      Y_def [symmetric] Z_def [symmetric]
    by (simp add: rX rX1 A_def [symmetric] B_def [symmetric] rA rA1 rB rB1)
qed

lemma noise_table_Some:
  fixes s :: int and x0 y0 z0 :: real
  defines "t \<equiv> perm (Noise3D_new s)"
  defines "X \<equiv> cell x0" and "Y \<equiv> cell y0" and "Z \<equiv> cell z0"
  defines "A \<equiv> t ! X + Y" and "B \<equiv> t ! Suc X + Y"
  defines "x \<equiv> x0 - of_int \<lfloor>x0\<rfloor>" and "y \<equiv> y0 - of_int \<lfloor>y0\<rfloor>" and "z \<equiv> z0 - of_int \<lfloor>z0\<rfloor>"
  shows "noise (Noise3D_new s) x0 y0 z0 =
    Some (lerp
      (lerp
        (lerp (grad (t ! (t ! A + Z)) x y z) (grad (t ! (t ! B + Z)) (x - 1) y z) (fade x))
        (lerp (grad (t ! (t ! (A + 1) + Z)) x (y - 1) z)
              (grad (t ! (t ! (B + 1) + Z)) (x - 1) (y - 1) z) (fade x))
        (fade y))
      (lerp
        (lerp (grad (t ! (t ! A + Z + 1)) x y (z - 1))
              (grad (t ! (t ! B + Z + 1)) (x - 1) y (z - 1)) (fade x))
        (lerp (grad (t ! (t ! (A + 1) + Z + 1)) x (y - 1) (z - 1))
              (grad (t ! (t ! (B + 1) + Z + 1)) (x - 1) (y - 1) (z - 1)) (fade x))
        (fade y))
      (fade z))"
proof -
  have X: "X \<le> 255" and Y: "Y \<le> 255" and Z: "Z \<le> 255"
    by (simp_all add: X_def Y_def Z_def cell_le)
  have b: "t ! i \<le> 255" if "i < 512" for i
    using that by (simp add: t_def table_nth_le)
  have r: "rd t i = Some (t ! i)" if "i < 512" for i
    using that by (simp add: t_def rd_table)
  have A: "A \<le> 510" using b [of X] X Y by (simp add: A_def)
  have B: "B \<le> 510" using b [of "Suc X"] X Y by (simp add: B_def)
  have rX: "rd t X = Some (t ! X)" and rX1: "rd t (Suc X) = Some (t ! Suc X)"
    using X by (simp_all add: r)
  have rA: "rd t A = Some (t ! A)" and rA1: "rd t (Suc A) = Some (t ! Suc A)"
    using A by (simp_all add: r)
  have rB: "rd t B = Some (t ! B)" and rB1: "rd t (Suc B) = Some (t ! Suc B)"
    using B by (simp_all add: r)
  have c: "rd t (t ! i + Z) = Some (t ! (t ! i + Z))"
     "rd t (Suc (t ! i + Z)) = Some (t ! Suc (t ! i + Z))" if "i < 512" for i
    using b [OF that] Z by (simp_all add: r)
  have cA: "A < 512" "Suc A < 512" "B < 512" "Suc B < 512"
    using A B by simp_all
  show ?thesis
    unfolding noise_def Let_def t_def [symmetric] X_def [symmetric]
      Y_def [symmetric] Z_def [symmetric] x_def [symmetric] y_def [symmetric] z_def [symmetric]
    by (simp add: rX rX1 A_def [symmetric] B_def [symmetric] rA rA1 rB rB1 c [OF cA(1)]
        c [OF cA(2)] c [OF cA(3)] c [OF cA(4)])
qed

section \<open>The table invariant\<close>

text \<open>
  Claim C4. For every seed, the table built by \<^verbatim>\<open>initPermutation\<close> has 512 entries,
  its first 256 entries are a permutation of \<open>0..255\<close> (the same multiset as
  \<open>[0..<256]\<close>, hence distinct and with exactly the elements \<open>0..255\<close>), and entry
  \<open>i + 256\<close> equals entry \<open>i\<close> for every \<open>i < 256\<close>. The only code that writes the
  table is \<^verbatim>\<open>initPermutation\<close> itself, so the statement for every seed also covers a
  table that is initialised again; \<^verbatim>\<open>noise\<close>, \<^verbatim>\<open>fbm\<close>, \<^verbatim>\<open>turbulence\<close> and
  \<^verbatim>\<open>ridged\<close> only read it.
\<close>

theorem initPermutation_doubled_permutation:
  "length (perm (Noise3D_new s)) = 512 \<and>
   mset (take 256 (perm (Noise3D_new s))) = mset [0..<256] \<and>
   distinct (take 256 (perm (Noise3D_new s))) \<and>
   set (take 256 (perm (Noise3D_new s))) = {0..<256} \<and>
   (\<forall>i<256. perm (Noise3D_new s) ! (i + 256) = perm (Noise3D_new s) ! i)"
proof -
  have p: "perm (Noise3D_new s) = initPermutation s"
    by (simp add: Noise3D_new_def)
  have "initPermutation s ! (i + 256) = initPermutation s ! i" if "i < 256" for i
    using that by (simp add: nth_initPermutation)
  then show ?thesis
    unfolding p take_initPermutation
    by (simp add: shuffled_identity shuffled_identity_distinct shuffled_identity_set)
qed

theorem initPermutation_doubled_permutation_witness:
  "length (perm (Noise3D_new 12345)) = 512 \<and>
   distinct (take 256 (perm (Noise3D_new 12345))) \<and>
   perm (Noise3D_new 12345) ! (0 + 256) = perm (Noise3D_new 12345) ! 0 \<and>
   perm (Noise3D_new 12345) ! (255 + 256) = perm (Noise3D_new 12345) ! 255"
proof -
  note t = initPermutation_doubled_permutation [of 12345]
  from t have a: "\<forall>i<256. perm (Noise3D_new 12345) ! (i + 256) = perm (Noise3D_new 12345) ! i"
    by (elim conjE)
  have "perm (Noise3D_new 12345) ! (0 + 256) = perm (Noise3D_new 12345) ! 0"
    by (rule a [rule_format]) simp
  moreover have "perm (Noise3D_new 12345) ! (255 + 256) = perm (Noise3D_new 12345) ! 255"
    by (rule a [rule_format]) simp
  ultimately show ?thesis using t by (elim conjE) (intro conjI)
qed

section \<open>Table reads stay in bounds\<close>

text \<open>
  Claim C10. For every seed and every input, each of the fourteen indices at which
  \<^verbatim>\<open>noise\<close> reads the table, the \<open>+ 1\<close> offsets included, is at most 511 and inside
  the table, so that no read is \<^verbatim>\<open>undefined\<close> and \<^verbatim>\<open>noise\<close> returns a number.
\<close>

theorem noise_reads_in_bounds:
  "(\<forall>i \<in> set (noise_reads (Noise3D_new s) x y z).
      i \<le> 511 \<and> i < length (perm (Noise3D_new s))) \<and>
   length (noise_reads (Noise3D_new s) x y z) = 14 \<and>
   (\<exists>v. noise (Noise3D_new s) x y z = Some v)"
proof -
  define t where "t = perm (Noise3D_new s)"
  define X Y Z where "X = cell x" and "Y = cell y" and "Z = cell z"
  define A B where "A = t ! X + Y" and "B = t ! Suc X + Y"
  have X: "X \<le> 255" and Y: "Y \<le> 255" and Z: "Z \<le> 255"
    by (simp_all add: X_def Y_def Z_def cell_le)
  have b: "t ! i \<le> 255" if "i < 512" for i
    using that by (simp add: t_def table_nth_le)
  have A: "A \<le> 510" using b [of X] X Y by (simp add: A_def)
  have B: "B \<le> 510" using b [of "Suc X"] X Y by (simp add: B_def)
  have c: "t ! i + Z \<le> 510" if "i < 512" for i
    using b [OF that] Z by simp
  have cA: "t ! A + Z \<le> 510" "t ! Suc A + Z \<le> 510" "t ! B + Z \<le> 510" "t ! Suc B + Z \<le> 510"
    using A B by (simp_all add: c)
  have reads: "noise_reads (Noise3D_new s) x y z =
    [X, A, A + 1, X + 1, B, B + 1,
     t ! A + Z, t ! A + Z + 1, t ! (A + 1) + Z, t ! (A + 1) + Z + 1,
     t ! B + Z, t ! B + Z + 1, t ! (B + 1) + Z, t ! (B + 1) + Z + 1]"
    unfolding t_def X_def Y_def Z_def A_def B_def by (simp add: noise_reads_table)
  have "\<forall>i \<in> set (noise_reads (Noise3D_new s) x y z). i \<le> 511"
    unfolding reads using X A B cA by simp
  moreover have "length (noise_reads (Noise3D_new s) x y z) = 14"
    unfolding reads by simp
  moreover have "\<exists>v. noise (Noise3D_new s) x y z = Some v"
    by (simp add: noise_table_Some)
  ultimately show ?thesis by auto
qed

theorem noise_reads_in_bounds_witness:
  "list_all (\<lambda>i. i \<le> 511) (noise_reads (Noise3D_new 12345) (15 / 2) (249 / 2) (1139 / 8)) \<and>
   length (noise_reads (Noise3D_new 12345) (15 / 2) (249 / 2) (1139 / 8)) = 14 \<and>
   (\<exists>v. noise (Noise3D_new 12345) (15 / 2) (249 / 2) (1139 / 8) = Some v)"
proof -
  note t = noise_reads_in_bounds [of 12345 "15 / 2" "249 / 2" "1139 / 8"]
  from t have "\<forall>i \<in> set (noise_reads (Noise3D_new 12345) (15 / 2) (249 / 2) (1139 / 8)). i \<le> 511"
    by blast
  then have "list_all (\<lambda>i. i \<le> 511) (noise_reads (Noise3D_new 12345) (15 / 2) (249 / 2) (1139 / 8))"
    by (simp only: list_all_iff)
  with t show ?thesis by blast
qed

section \<open>Determinism\<close>

text \<open>
  Claim C1. The table is a function of the seed, and \<^verbatim>\<open>noise\<close> is a function of the
  table and the three coordinates only: it does not read the \<^verbatim>\<open>seed\<close> field and
  leaves the object as it was. Hence two fields constructed from the same seed have the
  same table and return the same value at the same input, and a second evaluation on the
  same object returns what the first returned.
\<close>

theorem noise_deterministic:
  "(s1 = s2 \<longrightarrow> perm (Noise3D_new s1) = perm (Noise3D_new s2)) \<and>
   (perm a = perm b \<longrightarrow> noise a x y z = noise b x y z) \<and>
   (s1 = s2 \<and> x1 = x2 \<and> y1 = y2 \<and> z1 = z2 \<longrightarrow>
      noise (Noise3D_new s1) x1 y1 z1 = noise (Noise3D_new s2) x2 y2 z2) \<and>
   (let (v1, o1) = noise_call (Noise3D_new s) x y z;
        (v2, o2) = noise_call o1 x y z
    in v1 = v2 \<and> o1 = Noise3D_new s \<and> o2 = Noise3D_new s \<and> (\<exists>r. v1 = Some r))"
proof -
  have "noise a x y z = noise b x y z" if "perm a = perm b"
    unfolding noise_def that ..
  moreover have "\<exists>r. noise (Noise3D_new s) x y z = Some r"
    by (simp add: noise_table_Some)
  ultimately show ?thesis
    by (auto simp: noise_call_def)
qed

theorem noise_deterministic_witness:
  "perm (Noise3D_new 12345) = perm (Noise3D_new 12345) \<and>
   noise (Noise3D_new 12345) (15 / 2) (249 / 2) (1139 / 8) =
     noise (Noise3D_new 12345) (15 / 2) (249 / 2) (1139 / 8) \<and>
   noise (Noise3D_new 12345\<lparr>seed := 7\<rparr>) (15 / 2) (249 / 2) (1139 / 8) =
     noise (Noise3D_new 12345) (15 / 2) (249 / 2) (1139 / 8) \<and>
   fst (noise_call (snd (noise_call (Noise3D_new 12345) 0 0 0)) 0 0 0) =
     fst (noise_call (Noise3D_new 12345) 0 0 0)"
proof -
  have "perm (Noise3D_new 12345\<lparr>seed := 7\<rparr>) = perm (Noise3D_new 12345)"
    by simp
  with noise_deterministic [of 12345 12345 "Noise3D_new 12345\<lparr>seed := 7\<rparr>" "Noise3D_new 12345"
      "15 / 2" "249 / 2" "1139 / 8" "15 / 2" "15 / 2" "249 / 2" "249 / 2" "1139 / 8" "1139 / 8" 12345]
  have "noise (Noise3D_new 12345\<lparr>seed := 7\<rparr>) (15 / 2) (249 / 2) (1139 / 8) =
     noise (Noise3D_new 12345) (15 / 2) (249 / 2) (1139 / 8)"
    by blast
  then show ?thesis by (simp add: noise_call_def)
qed

section \<open>Bounds on the noise value\<close>

lemma grad_arith:
  "grad hash x y z =
     (let h = hash mod 16;
          u = (if h < 8 then x else y);
          v = (if h < 4 then y else if h = 12 \<or> h = 14 then x else z)
      in (if odd h then - u else u) + (if odd (h div 2) then - v else v))"
proof -
  have a: "hash AND 15 = hash mod 16"
    using take_bit_eq_mask [of 4 hash] by (simp add: take_bit_eq_mod mask_eq_exp_minus_1)
  have b: "h AND 1 \<noteq> 0 \<longleftrightarrow> odd h" for h :: nat
    by (simp add: and_one_eq odd_iff_mod_2_eq_one)
  have c: "h AND 2 \<noteq> 0 \<longleftrightarrow> odd (h div 2)" for h :: nat
    using and_exp_eq_0_iff_not_bit [of h 1] by (simp add: bit_iff_odd)
  show ?thesis
    unfolding grad_def a by (simp only: b c)
qed

lemma sign_sum_abs_le:
  fixes u v :: real
  shows "\<bar>(if p then - u else u) + (if q then - v else v)\<bar> \<le> \<bar>u\<bar> + \<bar>v\<bar>"
  by (cases p; cases q) simp_all

lemma grad_abs_le: "\<bar>grad hash a b c\<bar> \<le> \<bar>a\<bar> + \<bar>b\<bar> + \<bar>c\<bar>"
proof -
  define h where "h = hash AND 15"
  define u where "u = (if h < 8 then a else b)"
  define v where "v = (if h < 4 then b else if h = 12 \<or> h = 14 then a else c)"
  have "\<bar>u\<bar> + \<bar>v\<bar> \<le> \<bar>a\<bar> + \<bar>b\<bar> + \<bar>c\<bar>"
  proof (cases "h < 4")
    case True
    then show ?thesis by (simp add: u_def v_def)
  next
    case False
    show ?thesis
    proof (cases "h < 8")
      case True
      with False show ?thesis by (auto simp: u_def v_def)
    next
      case False
      then show ?thesis by (simp add: u_def v_def)
    qed
  qed
  moreover have "grad hash a b c =
      (if h AND 1 \<noteq> 0 then - u else u) + (if h AND 2 \<noteq> 0 then - v else v)"
    by (simp only: grad_def Let_def h_def u_def v_def)
  ultimately show ?thesis
    using sign_sum_abs_le [of "h AND 1 \<noteq> 0" u "h AND 2 \<noteq> 0" v] by simp
qed

lemma fade_nonneg: "0 \<le> t \<Longrightarrow> 0 \<le> fade t"
proof -
  assume t: "0 \<le> t"
  have "fade t = t ^ 3 * (6 * (t - 5 / 4)\<^sup>2 + 5 / 8)"
    by (simp add: fade_def power2_eq_square power3_eq_cube algebra_simps)
  moreover have "0 \<le> t ^ 3" using t by simp
  moreover have "0 \<le> 6 * (t - 5 / 4)\<^sup>2 + 5 / 8" by simp
  ultimately show ?thesis by simp
qed

lemma fade_le_one: "t \<le> 1 \<Longrightarrow> fade t \<le> 1"
proof -
  assume t: "t \<le> 1"
  have "1 - fade t = (1 - t) ^ 3 * (6 * (t + 1 / 4)\<^sup>2 + 5 / 8)"
    by (simp add: fade_def power2_eq_square power3_eq_cube algebra_simps)
  moreover have "0 \<le> (1 - t) ^ 3" using t by simp
  moreover have "0 \<le> 6 * (t + 1 / 4)\<^sup>2 + 5 / 8" by simp
  ultimately have "0 \<le> 1 - fade t" by simp
  then show ?thesis by simp
qed

lemma lerp_fade_le_half:
  assumes "0 \<le> t" and "t \<le> 1"
  shows "lerp t (1 - t) (fade t) \<le> 1 / 2"
proof -
  have "1 / 2 - lerp t (1 - t) (fade t) =
      2 * (t - 1 / 2)\<^sup>2 * (6 * (t * (1 - t))\<^sup>2 + 2 * (t * (1 - t)) + 1)"
    by (simp add: lerp_def fade_def power2_eq_square algebra_simps)
  moreover have "0 \<le> t * (1 - t)" using assms by simp
  then have "0 \<le> 6 * (t * (1 - t))\<^sup>2 + 2 * (t * (1 - t)) + 1" by simp
  then have "0 \<le> 2 * (t - 1 / 2)\<^sup>2 * (6 * (t * (1 - t))\<^sup>2 + 2 * (t * (1 - t)) + 1)"
    by (intro mult_nonneg_nonneg) simp_all
  ultimately show ?thesis by simp
qed

lemma lerp_abs_le:
  assumes "0 \<le> t" and "t \<le> 1" and "\<bar>a\<bar> \<le> A" and "\<bar>b\<bar> \<le> B"
  shows "\<bar>lerp a b t\<bar> \<le> lerp A B t"
proof -
  have "lerp a b t = (1 - t) * a + t * b"
    by (simp add: lerp_def algebra_simps)
  then have "\<bar>lerp a b t\<bar> \<le> \<bar>(1 - t) * a\<bar> + \<bar>t * b\<bar>"
    by (simp only: abs_triangle_ineq)
  also have "\<dots> = (1 - t) * \<bar>a\<bar> + t * \<bar>b\<bar>"
    using assms(1,2) by (simp add: abs_mult)
  also have "\<dots> \<le> (1 - t) * A + t * B"
    using assms by (intro add_mono mult_left_mono) simp_all
  also have "\<dots> = lerp A B t"
    by (simp add: lerp_def algebra_simps)
  finally show ?thesis .
qed

lemma lerp_shift: "lerp (a + c) (b + c) t = lerp a b t + c"
  by (simp add: lerp_def algebra_simps)

lemma corner_blend_le:
  fixes x y z :: real
  assumes x: "0 \<le> x" "x \<le> 1" and y: "0 \<le> y" "y \<le> 1" and z: "0 \<le> z" "z \<le> 1"
  shows "\<bar>lerp
      (lerp
        (lerp (grad h1 x y z) (grad h2 (x - 1) y z) (fade x))
        (lerp (grad h3 x (y - 1) z) (grad h4 (x - 1) (y - 1) z) (fade x))
        (fade y))
      (lerp
        (lerp (grad h5 x y (z - 1)) (grad h6 (x - 1) y (z - 1)) (fade x))
        (lerp (grad h7 x (y - 1) (z - 1)) (grad h8 (x - 1) (y - 1) (z - 1)) (fade x))
        (fade y))
      (fade z)\<bar> \<le> 3 / 2"
proof -
  define m where "m t = lerp t (1 - t) (fade t)" for t :: real
  have m: "m x \<le> 1 / 2" "m y \<le> 1 / 2" "m z \<le> 1 / 2"
    unfolding m_def by (rule lerp_fade_le_half [OF x] lerp_fade_le_half [OF y]
        lerp_fade_le_half [OF z])+
  have fx: "0 \<le> fade x" "fade x \<le> 1" using x by (simp_all add: fade_nonneg fade_le_one)
  have fy: "0 \<le> fade y" "fade y \<le> 1" using y by (simp_all add: fade_nonneg fade_le_one)
  have fz: "0 \<le> fade z" "fade z \<le> 1" using z by (simp_all add: fade_nonneg fade_le_one)
  have g: "\<bar>grad h a b c\<bar> \<le> \<bar>a\<bar> + (\<bar>b\<bar> + \<bar>c\<bar>)" for h a b c
    using grad_abs_le [of h a b c] by simp
  have ax: "\<bar>x\<bar> = x" "\<bar>x - 1\<bar> = 1 - x" using x by simp_all
  have ay: "\<bar>y\<bar> = y" "\<bar>y - 1\<bar> = 1 - y" using y by simp_all
  have az: "\<bar>z\<bar> = z" "\<bar>z - 1\<bar> = 1 - z" using z by simp_all
  have along_x: "\<bar>lerp (grad h b c d) (grad h' (b - 1) c d) (fade x)\<bar> \<le> m x + (\<bar>c\<bar> + \<bar>d\<bar>)"
    if "b = x" for h h' b c d
  proof -
    have "\<bar>lerp (grad h x c d) (grad h' (x - 1) c d) (fade x)\<bar>
        \<le> lerp (x + (\<bar>c\<bar> + \<bar>d\<bar>)) ((1 - x) + (\<bar>c\<bar> + \<bar>d\<bar>)) (fade x)"
      using fx g [of h x c d] g [of h' "x - 1" c d] unfolding ax by (intro lerp_abs_le)
    then show ?thesis unfolding that lerp_shift m_def .
  qed
  have along_y: "\<bar>lerp (lerp (grad h1' x y d) (grad h2' (x - 1) y d) (fade x))
        (lerp (grad h3' x (y - 1) d) (grad h4' (x - 1) (y - 1) d) (fade x)) (fade y)\<bar>
      \<le> m x + m y + \<bar>d\<bar>" for h1' h2' h3' h4' d
  proof -
    have "\<bar>lerp (lerp (grad h1' x y d) (grad h2' (x - 1) y d) (fade x))
        (lerp (grad h3' x (y - 1) d) (grad h4' (x - 1) (y - 1) d) (fade x)) (fade y)\<bar>
      \<le> lerp (y + (m x + \<bar>d\<bar>)) ((1 - y) + (m x + \<bar>d\<bar>)) (fade y)"
      using fy along_x [of x h1' y d h2'] along_x [of x h3' "y - 1" d h4'] unfolding ay
      by (intro lerp_abs_le) simp_all
    then show ?thesis unfolding lerp_shift m_def by simp
  qed
  have "\<bar>lerp
      (lerp
        (lerp (grad h1 x y z) (grad h2 (x - 1) y z) (fade x))
        (lerp (grad h3 x (y - 1) z) (grad h4 (x - 1) (y - 1) z) (fade x))
        (fade y))
      (lerp
        (lerp (grad h5 x y (z - 1)) (grad h6 (x - 1) y (z - 1)) (fade x))
        (lerp (grad h7 x (y - 1) (z - 1)) (grad h8 (x - 1) (y - 1) (z - 1)) (fade x))
        (fade y))
      (fade z)\<bar> \<le> lerp (z + (m x + m y)) ((1 - z) + (m x + m y)) (fade z)"
    using fz along_y [of h1 z h2 h3 h4] along_y [of h5 "z - 1" h6 h7 h8] unfolding az
    by (intro lerp_abs_le) simp_all
  also have "\<dots> = m x + m y + m z"
    unfolding lerp_shift m_def by simp
  also have "\<dots> \<le> 3 / 2"
    using m by simp
  finally show ?thesis .
qed

lemma noise_abs_le:
  assumes "noise this x0 y0 z0 = Some r"
  shows "\<bar>r\<bar> \<le> 3 / 2"
proof -
  define x y z where "x = x0 - of_int \<lfloor>x0\<rfloor>" and "y = y0 - of_int \<lfloor>y0\<rfloor>"
    and "z = z0 - of_int \<lfloor>z0\<rfloor>"
  have x: "0 \<le> x" "x \<le> 1" and y: "0 \<le> y" "y \<le> 1" and z: "0 \<le> z" "z \<le> 1"
    unfolding x_def y_def z_def by linarith+
  from assms obtain h1 h2 h3 h4 h5 h6 h7 h8 where
    "r = lerp
      (lerp
        (lerp (grad h1 x y z) (grad h2 (x - 1) y z) (fade x))
        (lerp (grad h3 x (y - 1) z) (grad h4 (x - 1) (y - 1) z) (fade x))
        (fade y))
      (lerp
        (lerp (grad h5 x y (z - 1)) (grad h6 (x - 1) y (z - 1)) (fade x))
        (lerp (grad h7 x (y - 1) (z - 1)) (grad h8 (x - 1) (y - 1) (z - 1)) (fade x))
        (fade y))
      (fade z)"
    unfolding noise_def Let_def x_def [symmetric] y_def [symmetric] z_def [symmetric]
    by (auto simp: bind_eq_Some_conv)
  then show ?thesis
    using corner_blend_le [OF x y z] by simp
qed

section \<open>The table of seed 12345 at one lattice cell\<close>

text \<open>
  The default seed of the constructor is 12345. The lemmas below evaluate the fourteen
  table entries that \<^verbatim>\<open>noise\<close> reads in the lattice cell \<open>(7, 124, 142)\<close>.
\<close>

lemma schedule_12345:
  "schedule 255 (to_uint32 12345) =
    [68, 142, 44, 220, 36, 62, 28, 247, 28, 71, 40, 130, 88, 71, 238, 120, 212, 175,
     26, 71, 204, 141, 174, 179, 60, 203, 76, 112, 60, 63, 68, 64, 36, 184, 108, 58,
     104, 74, 148, 115, 68, 117, 90, 158, 16, 122, 120, 82, 148, 178, 128, 124, 28,
     132, 130, 93, 188, 18, 160, 150, 108, 154, 60, 14, 4, 100, 130, 159, 28, 104, 92,
     144, 172, 89, 120, 133, 144, 158, 88, 163, 52, 36, 86, 98, 8, 49, 148, 126, 44, 1,
     48, 65, 92, 22, 118, 0, 132, 125, 102, 92, 72, 105, 78, 101, 60, 150, 58, 116, 52,
     127, 70, 49, 116, 64, 132, 96, 80, 37, 44, 44, 116, 61, 50, 128, 88, 24, 0, 120,
     68, 73, 62, 32, 104, 81, 4, 41, 100, 104, 82, 19, 96, 47, 106, 72, 20, 74, 86, 52,
     56, 46, 12, 74, 92, 69, 68, 52, 44, 69, 56, 56, 68, 17, 90, 0, 88, 82, 2, 11, 68,
     72, 32, 70, 48, 9, 46, 80, 4, 70, 58, 72, 40, 25, 38, 69, 12, 60, 30, 67, 4, 60,
     4, 63, 4, 47, 32, 20, 0, 30, 54, 42, 36, 6, 32, 17, 40, 27, 2, 16, 36, 2, 0, 3,
     32, 17, 20, 1, 36, 8, 2, 2, 4, 8, 14, 28, 4, 12, 4, 1, 24, 2, 2, 7, 4, 2, 16, 1,
     0, 15, 10, 5, 4, 0, 8, 5, 4, 1, 4, 2, 4, 2, 2, 2, 0, 1, 0]"
  by (simp add: to_uint32_def schedule_numeral draw_numeral schedule_one lcg_def
      del: schedule.simps)

lemma table_12345:
  "perm (Noise3D_new 12345) ! 7 = 200"
  "perm (Noise3D_new 12345) ! 324 = 67"
  "perm (Noise3D_new 12345) ! 325 = 30"
  "perm (Noise3D_new 12345) ! 8 = 162"
  "perm (Noise3D_new 12345) ! 286 = 236"
  "perm (Noise3D_new 12345) ! 287 = 35"
  "perm (Noise3D_new 12345) ! 209 = 240"
  "perm (Noise3D_new 12345) ! 210 = 122"
  "perm (Noise3D_new 12345) ! 172 = 98"
  "perm (Noise3D_new 12345) ! 173 = 86"
  "perm (Noise3D_new 12345) ! 378 = 81"
  "perm (Noise3D_new 12345) ! 379 = 186"
  "perm (Noise3D_new 12345) ! 177 = 243"
  "perm (Noise3D_new 12345) ! 178 = 239"
  by (rule table_entry; simp add: schedule_12345 follow_numeral)+

lemma cells_7_124_142: "cell (15 / 2) = 7" "cell (249 / 2) = 124" "cell (1139 / 8) = 142"
  by (simp_all add: cell_eq_mod)

lemma noise_12345_value:
  "noise (Noise3D_new 12345) (15 / 2) (249 / 2) (1139 / 8) = Some (135581 / 131072)"
  by (simp add: noise_table_Some cells_7_124_142 table_12345 grad_arith fade_def lerp_def)

section \<open>The range of noise\<close>

text \<open>
  Claim C2 states that \<^verbatim>\<open>noise\<close> stays in \<open>[-1, 1]\<close>. It does not: the eight corner
  gradients of a cell can all point towards a point near the centre of the cell, and the
  blend then exceeds 1. For the default seed 12345 this happens in the cell
  \<open>(7, 124, 142)\<close>: at \<open>(7.5, 124.5, 142.375)\<close> the value is \<open>135581 / 131072\<close>,
  about \<open>1.0344\<close>.
\<close>

theorem noise_exceeds_one:
  "noise (Noise3D_new 12345) (15 / 2) (249 / 2) (1139 / 8) = Some (135581 / 131072) \<and>
   (1 :: real) < 135581 / 131072"
  by (simp add: noise_12345_value)

text \<open>
  Claim C2 as amended. For every seed and every input, \<^verbatim>\<open>noise\<close> returns a number
  in \<open>[-3/2, 3/2]\<close>: every corner term is at most the sum of the three distances to
  that corner, and the fade-weighted blend of the distances along one axis is at most
  \<open>1/2\<close>.
\<close>

theorem noise_range:
  "\<exists>r. noise (Noise3D_new s) x y z = Some r \<and> - (3 / 2) \<le> r \<and> r \<le> 3 / 2"
proof -
  obtain r where r: "noise (Noise3D_new s) x y z = Some r"
    by (simp add: noise_table_Some)
  then have "\<bar>r\<bar> \<le> 3 / 2" by (rule noise_abs_le)
  with r show ?thesis by (simp add: abs_le_iff) linarith
qed

theorem noise_range_witness:
  "\<exists>r. noise (Noise3D_new 12345) (15 / 2) (249 / 2) (1139 / 8) = Some r \<and>
     - (3 / 2) \<le> r \<and> r \<le> 3 / 2"
  by (rule noise_range)

section \<open>The ranges of fbm, turbulence and ridged\<close>

lemma noise_table_bounded:
  obtains r where "noise (Noise3D_new s) x y z = Some r" and "\<bar>r\<bar> \<le> 3 / 2"
proof -
  obtain r where r: "noise (Noise3D_new s) x y z = Some r"
    by (simp add: noise_table_Some)
  then have "\<bar>r\<bar> \<le> 3 / 2" by (rule noise_abs_le)
  with r show ?thesis by (rule that)
qed

text \<open>
  In the lemmas below \<open>c\<close> bounds the three coordinates, \<open>f\<close> is the frequency and
  \<open>n\<close> the number of iterations that remain: \<open>c \<cdot> f \<cdot> 2^n < 2^1025\<close> says that the
  frequency and the scaled coordinates of all of them are finite.
\<close>

lemma scaled_finite:
  fixes c f :: real
  assumes "1 \<le> c" and "0 < f" and "c * f * 2 ^ Suc n < 2 ^ 1025"
  shows "c * f < 2 ^ 1024" and "c * (f * 2) * 2 ^ n < 2 ^ 1025"
proof -
  have cf: "0 \<le> c * f" using assms(1,2) by simp
  have "(1 :: real) \<le> 2 ^ n" by simp
  then have "c * f * 1 \<le> c * f * 2 ^ n"
    using cf by (rule mult_left_mono)
  moreover have "c * f * 2 ^ n < 2 ^ 1024"
    using assms(3) by simp
  ultimately show "c * f < 2 ^ 1024" by simp
  show "c * (f * 2) * 2 ^ n < 2 ^ 1025"
    using assms(3) by (simp add: mult.assoc)
qed

lemma small_not_overflows:
  assumes "\<bar>r\<bar> \<le> b" and "b < 2 ^ 1024"
  shows "\<not> overflows r"
  unfolding overflows_def not_le using assms by (rule le_less_trans)

lemma not_overflows_scaled:
  fixes c f x :: real
  assumes "\<bar>x\<bar> \<le> c" and "0 < f" and "c * f < 2 ^ 1024"
  shows "\<not> overflows (x * f)"
proof -
  have "\<bar>x * f\<bar> = \<bar>x\<bar> * f"
    using assms(2) by (simp add: abs_mult)
  also have "\<dots> \<le> c * f"
    using assms(1,2) by (simp add: mult_right_mono)
  finally show ?thesis
    using assms(3) by (rule small_not_overflows)
qed

lemma octave_noise_bounded:
  assumes "1 \<le> c" and "\<bar>x\<bar> \<le> c" and "\<bar>y\<bar> \<le> c" and "\<bar>z\<bar> \<le> c"
    and "0 < f" and "c * f < 2 ^ 1024"
  obtains nv where "octave_noise (Noise3D_new s) x y z f = Some nv" and "\<bar>nv\<bar> \<le> 3 / 2"
proof -
  have "\<bar>1 :: real\<bar> \<le> c" using assms(1) by simp
  then have "\<not> overflows (1 * f)"
    using assms(5,6) by (rule not_overflows_scaled)
  then have o: "\<not> overflows f" by simp
  note ox = not_overflows_scaled [OF assms(2) assms(5,6)]
    and oy = not_overflows_scaled [OF assms(3) assms(5,6)]
    and oz = not_overflows_scaled [OF assms(4) assms(5,6)]
  obtain nv where nv: "noise (Noise3D_new s) (x * f) (y * f) (z * f) = Some nv"
    and b: "\<bar>nv\<bar> \<le> 3 / 2"
    by (rule noise_table_bounded)
  have "octave_noise (Noise3D_new s) x y z f = Some nv"
    using o ox oy oz nv by (simp add: octave_noise_def)
  then show ?thesis using b by (rule that)
qed

lemma fbm_loop_bounded:
  assumes "0 \<le> persistence" and "persistence \<le> 1"
    and "1 \<le> c" and "\<bar>x\<bar> \<le> c" and "\<bar>y\<bar> \<le> c" and "\<bar>z\<bar> \<le> c"
    and "0 \<le> a" and "a \<le> 1" and "\<bar>v\<bar> \<le> 3 / 2 * m" and "m + real n \<le> 1024"
    and "0 < f" and "c * f * 2 ^ n < 2 ^ 1025"
  shows "\<exists>v' a' f' m'. fbm_loop (Noise3D_new s) x y z persistence n (v, a, f, m) =
             Some (v', a', f', m') \<and>
           \<bar>v'\<bar> \<le> 3 / 2 * m' \<and> m \<le> m' \<and> (0 < n \<longrightarrow> m + a \<le> m') \<and> m' \<le> 1024"
  using assms(7-12)
proof (induction n arbitrary: v a f m)
  case 0
  then show ?case by simp
next
  case (Suc n)
  note fin = scaled_finite [OF assms(3) Suc.prems(5,6)]
  obtain nv where nv: "octave_noise (Noise3D_new s) x y z f = Some nv"
    and b: "\<bar>nv\<bar> \<le> 3 / 2"
    using assms(3-6) Suc.prems(5) fin(1) by (rule octave_noise_bounded)
  have a': "0 \<le> a * persistence"
    using Suc.prems(1) assms(1) by simp
  have "a * persistence \<le> 1 * 1"
    using Suc.prems(2) assms(2) zero_le_one assms(1) by (rule mult_mono)
  then have a1: "a * persistence \<le> 1" by simp
  have "\<bar>nv\<bar> * a \<le> 3 / 2 * a"
    using b Suc.prems(1) by (rule mult_right_mono)
  then have na: "\<bar>nv * a\<bar> \<le> 3 / 2 * a"
    using Suc.prems(1) by (simp add: abs_mult)
  with Suc.prems(3) have "\<bar>v\<bar> + \<bar>nv * a\<bar> \<le> 3 / 2 * m + 3 / 2 * a"
    by (rule add_mono)
  moreover have "\<bar>v + nv * a\<bar> \<le> \<bar>v\<bar> + \<bar>nv * a\<bar>"
    by (rule abs_triangle_ineq)
  ultimately have "\<bar>v + nv * a\<bar> \<le> 3 / 2 * m + 3 / 2 * a"
    by (rule order_trans [rotated])
  then have v': "\<bar>v + nv * a\<bar> \<le> 3 / 2 * (m + a)"
    by (simp only: distrib_left)
  have m': "m + a + real n \<le> 1024"
    using Suc.prems(2,4) by simp
  have ma: "m + a \<le> 1024"
    using m' by simp
  have o: "\<not> overflows a" "\<not> overflows (nv * a)" "\<not> overflows (v + nv * a)"
  proof -
    have "\<bar>a\<bar> \<le> 1" using Suc.prems(1,2) by simp
    then show "\<not> overflows a" by (rule small_not_overflows) simp
    have "\<bar>nv * a\<bar> \<le> 3 / 2" using na Suc.prems(2) by simp
    then show "\<not> overflows (nv * a)" by (rule small_not_overflows) simp
    have "\<bar>v + nv * a\<bar> \<le> 1536" using v' ma by simp
    then show "\<not> overflows (v + nv * a)" by (rule small_not_overflows) simp
  qed
  from Suc.IH [OF a' a1 v' m' _ fin(2)] Suc.prems(5) obtain v'' a'' f'' m'' where
    l: "fbm_loop (Noise3D_new s) x y z persistence n (v + nv * a, a * persistence, f * 2, m + a) =
      Some (v'', a'', f'', m'')" and r: "\<bar>v''\<bar> \<le> 3 / 2 * m''" "m + a \<le> m''" "m'' \<le> 1024"
    by auto
  have "fbm_loop (Noise3D_new s) x y z persistence (Suc n) (v, a, f, m) = Some (v'', a'', f'', m'')"
    using o by (simp add: nv l)
  moreover have "m \<le> m''" using r(2) Suc.prems(1) by simp
  ultimately show ?case using r by blast
qed

text \<open>
  The bound \<open>c\<close> of the lemmas from the hypotheses on the three coordinates.
\<close>

lemma coordinates_finite:
  fixes x y z :: real
  assumes "0 < octaves" and "octaves \<le> 1024"
    and "\<bar>x\<bar> * 2 ^ (octaves - 1) < 2 ^ 1024"
    and "\<bar>y\<bar> * 2 ^ (octaves - 1) < 2 ^ 1024"
    and "\<bar>z\<bar> * 2 ^ (octaves - 1) < 2 ^ 1024"
  obtains c where "1 \<le> c" and "\<bar>x\<bar> \<le> c" and "\<bar>y\<bar> \<le> c" and "\<bar>z\<bar> \<le> c"
    and "c * 1 * 2 ^ octaves < 2 ^ 1025"
proof -
  define c where "c = max 1 (max \<bar>x\<bar> (max \<bar>y\<bar> \<bar>z\<bar>))"
  obtain k where k: "octaves = Suc k"
    using assms(1) by (cases octaves) simp_all
  have "(2 :: real) ^ k \<le> 2 ^ 1023"
    using assms(2) k by (intro power_increasing) simp_all
  then have one: "(1 :: real) * 2 ^ k < 2 ^ 1024" by simp
  have "c * 2 ^ k < 2 ^ 1024"
    unfolding c_def using one assms(3-5) k by (simp add: max_def)
  then have "c * 1 * 2 ^ octaves < 2 ^ 1025"
    using k by simp
  moreover have "1 \<le> c" "\<bar>x\<bar> \<le> c" "\<bar>y\<bar> \<le> c" "\<bar>z\<bar> \<le> c"
    by (simp_all add: c_def le_max_iff_disj)
  ultimately show ?thesis using that by blast
qed

lemma fbm_bounded:
  assumes "0 < octaves" and "octaves \<le> 1024"
    and "\<bar>x\<bar> * 2 ^ (octaves - 1) < 2 ^ 1024"
    and "\<bar>y\<bar> * 2 ^ (octaves - 1) < 2 ^ 1024"
    and "\<bar>z\<bar> * 2 ^ (octaves - 1) < 2 ^ 1024"
    and "0 \<le> persistence" and "persistence \<le> 1"
  shows "\<exists>r. fbm (Noise3D_new s) x y z octaves persistence = Some r \<and> - (1 / 4) \<le> r \<and> r \<le> 5 / 4"
proof -
  obtain c where c: "1 \<le> c" "\<bar>x\<bar> \<le> c" "\<bar>y\<bar> \<le> c" "\<bar>z\<bar> \<le> c"
    and f: "c * 1 * 2 ^ octaves < 2 ^ 1025"
    using assms(1-5) by (rule coordinates_finite)
  have n: "0 + real octaves \<le> 1024" using assms(2) by simp
  from fbm_loop_bounded [OF assms(6,7) c _ _ _ n _ f, of 1 0 s] assms(1)
  obtain v a f m where
    l: "fbm_loop (Noise3D_new s) x y z persistence octaves (0, 1, 1, 0) = Some (v, a, f, m)"
    and b: "\<bar>v\<bar> \<le> 3 / 2 * m" and m: "1 \<le> m" "m \<le> 1024"
    by auto
  define q where "q = v / m"
  have q: "\<bar>q\<bar> \<le> 3 / 2"
    unfolding q_def using b m by (simp add: field_simps)
  then have "- (3 / 2) \<le> q" and "q \<le> 3 / 2"
    by (simp_all add: abs_le_iff)
  then have "- (1 / 4) \<le> q * 0.5 + 0.5 \<and> q * 0.5 + 0.5 \<le> 5 / 4"
    by simp
  then have "- (1 / 4) \<le> v / m * 0.5 + 0.5 \<and> v / m * 0.5 + 0.5 \<le> 5 / 4"
    unfolding q_def .
  moreover have "\<bar>m\<bar> \<le> 1024"
    using m by simp
  then have "\<not> overflows m"
    by (rule small_not_overflows) simp
  moreover have "\<not> overflows (v / m)"
    using q unfolding q_def by (rule small_not_overflows) simp
  ultimately have "fbm (Noise3D_new s) x y z octaves persistence = Some (v / m * 0.5 + 0.5) \<and>
      - (1 / 4) \<le> v / m * 0.5 + 0.5 \<and> v / m * 0.5 + 0.5 \<le> 5 / 4"
    using m by (simp add: fbm_def l)
  then show ?thesis by blast
qed

lemma turbulence_loop_bounded:
  assumes "1 \<le> c" and "\<bar>x\<bar> \<le> c" and "\<bar>y\<bar> \<le> c" and "\<bar>z\<bar> \<le> c"
    and "0 \<le> a" and "0 \<le> v" and "v \<le> 3 / 2 * m"
    and "0 < f" and "c * f * 2 ^ n < 2 ^ 1025"
  shows "\<exists>v' a' f' m'. turbulence_loop (Noise3D_new s) x y z n (v, a, f, m) =
             Some (v', a', f', m') \<and>
           0 \<le> v' \<and> v' \<le> 3 / 2 * m' \<and> m \<le> m' \<and> (0 < n \<longrightarrow> m + a \<le> m')"
  using assms(5-9)
proof (induction n arbitrary: v a f m)
  case 0
  then show ?case by simp
next
  case (Suc n)
  note fin = scaled_finite [OF assms(1) Suc.prems(4,5)]
  obtain nv where nv: "octave_noise (Noise3D_new s) x y z f = Some nv"
    and b: "\<bar>nv\<bar> \<le> 3 / 2"
    using assms(1-4) Suc.prems(4) fin(1) by (rule octave_noise_bounded)
  have a': "0 \<le> a * 0.5"
    using Suc.prems(1) by simp
  have p: "0 \<le> \<bar>nv\<bar> * a" "\<bar>nv\<bar> * a \<le> 3 / 2 * a"
    using Suc.prems(1) mult_right_mono [OF b Suc.prems(1)] by simp_all
  have v0: "0 \<le> v + \<bar>nv\<bar> * a"
    using p(1) Suc.prems(2) by simp
  have v1: "v + \<bar>nv\<bar> * a \<le> 3 / 2 * (m + a)"
    using p(2) Suc.prems(3) by (simp add: algebra_simps)
  from Suc.IH [OF a' v0 v1 _ fin(2)] Suc.prems(4) obtain v'' a'' f'' m'' where
    l: "turbulence_loop (Noise3D_new s) x y z n (v + \<bar>nv\<bar> * a, a * 0.5, f * 2, m + a) =
      Some (v'', a'', f'', m'')" and r: "0 \<le> v''" "v'' \<le> 3 / 2 * m''" "m + a \<le> m''"
    by auto
  have "turbulence_loop (Noise3D_new s) x y z (Suc n) (v, a, f, m) = Some (v'', a'', f'', m'')"
    using l by (simp add: nv)
  moreover have "m \<le> m''" using r(3) Suc.prems(1) by simp
  ultimately show ?case using r by blast
qed

lemma turbulence_bounded:
  assumes "0 < octaves" and "octaves \<le> 1024"
    and "\<bar>x\<bar> * 2 ^ (octaves - 1) < 2 ^ 1024"
    and "\<bar>y\<bar> * 2 ^ (octaves - 1) < 2 ^ 1024"
    and "\<bar>z\<bar> * 2 ^ (octaves - 1) < 2 ^ 1024"
  shows "\<exists>r. turbulence (Noise3D_new s) x y z octaves = Some r \<and> 0 \<le> r \<and> r \<le> 3 / 2"
proof -
  obtain c where c: "1 \<le> c" "\<bar>x\<bar> \<le> c" "\<bar>y\<bar> \<le> c" "\<bar>z\<bar> \<le> c"
    and f: "c * 1 * 2 ^ octaves < 2 ^ 1025"
    using assms by (rule coordinates_finite)
  from turbulence_loop_bounded [OF c _ _ _ _ f, of 1 0 0 s] assms(1)
  obtain v a f m where
    l: "turbulence_loop (Noise3D_new s) x y z octaves (0, 1, 1, 0) = Some (v, a, f, m)"
    and b: "0 \<le> v" "v \<le> 3 / 2 * m" and m: "1 \<le> m"
    by auto
  have "0 \<le> v / m \<and> v / m \<le> 3 / 2"
    using b m by (simp add: field_simps)
  moreover have "turbulence (Noise3D_new s) x y z octaves = Some (v / m)"
    using m by (simp add: turbulence_def l)
  ultimately show ?thesis by blast
qed

lemma ridged_loop_Some:
  assumes "1 \<le> c" and "\<bar>x\<bar> \<le> c" and "\<bar>y\<bar> \<le> c" and "\<bar>z\<bar> \<le> c"
    and "0 < f" and "c * f * 2 ^ n < 2 ^ 1025"
  shows "\<exists>st'. ridged_loop (Noise3D_new s) x y z n (v, a, f, w) = Some st'"
  using assms(5,6)
proof (induction n arbitrary: v a f w)
  case 0
  show ?case by (intro exI) (rule ridged_loop.simps(1))
next
  case (Suc n)
  note fin = scaled_finite [OF assms(1) Suc.prems]
  obtain nv where nv: "octave_noise (Noise3D_new s) x y z f = Some nv"
    using assms(1-4) Suc.prems(1) fin(1) by (rule octave_noise_bounded)
  have f2: "0 < f * 2" using Suc.prems(1) by simp
  show ?case
    using Suc.IH [OF f2 fin(2)] by (simp add: nv Let_def)
qed

lemma ridged_bounded:
  assumes "0 < octaves" and "octaves \<le> 1024"
    and "\<bar>x\<bar> * 2 ^ (octaves - 1) < 2 ^ 1024"
    and "\<bar>y\<bar> * 2 ^ (octaves - 1) < 2 ^ 1024"
    and "\<bar>z\<bar> * 2 ^ (octaves - 1) < 2 ^ 1024"
  shows "\<exists>r. ridged (Noise3D_new s) x y z octaves = Some r \<and> 0 \<le> r \<and> r \<le> 1"
proof -
  obtain c where c: "1 \<le> c" "\<bar>x\<bar> \<le> c" "\<bar>y\<bar> \<le> c" "\<bar>z\<bar> \<le> c"
    and f: "c * 1 * 2 ^ octaves < 2 ^ 1025"
    using assms by (rule coordinates_finite)
  obtain st where st: "ridged_loop (Noise3D_new s) x y z octaves (0, 1, 1, 1) = Some st"
    using ridged_loop_Some [OF c zero_less_one f] by blast
  obtain v a f w where "st = (v, a, f, w)"
    by (rule prod_cases4)
  with st show ?thesis
    by (simp add: ridged_def)
qed

subsection \<open>Where the loops overflow\<close>

text \<open>
  From the iteration with index 1024 on the frequency is an infinity, and the result of
  every call with more than 1024 octaves is \<^verbatim>\<open>NaN\<close>.
\<close>

lemma octave_noise_infinite:
  assumes "2 ^ 1024 \<le> f"
  shows "octave_noise this x y z f = None"
  using assms by (simp add: octave_noise_def overflows_def)

lemma frequency_doubles:
  fixes f :: real
  assumes "2 ^ 1024 \<le> f * 2 ^ Suc n"
  shows "2 ^ 1024 \<le> f * 2 * 2 ^ n"
  using assms by (simp add: mult.assoc)

lemma fbm_loop_infinite:
  assumes "2 ^ 1024 \<le> f * 2 ^ n"
  shows "fbm_loop this x y z persistence (Suc n) (v, a, f, m) = None"
  using assms
proof (induction n arbitrary: v a f m)
  case 0
  then show ?case by (simp add: octave_noise_infinite)
next
  case (Suc n)
  note ih = Suc.IH [OF frequency_doubles [OF Suc.prems]]
  show ?case
    by (subst fbm_loop.simps(2)) (simp add: ih del: fbm_loop.simps cong: if_cong)
qed

lemma turbulence_loop_infinite:
  assumes "2 ^ 1024 \<le> f * 2 ^ n"
  shows "turbulence_loop this x y z (Suc n) (v, a, f, m) = None"
  using assms
proof (induction n arbitrary: v a f m)
  case 0
  then show ?case by (simp add: octave_noise_infinite)
next
  case (Suc n)
  note ih = Suc.IH [OF frequency_doubles [OF Suc.prems]]
  show ?case
    by (subst turbulence_loop.simps(2)) (simp add: ih del: turbulence_loop.simps)
qed

lemma ridged_loop_infinite:
  assumes "2 ^ 1024 \<le> f * 2 ^ n"
  shows "ridged_loop this x y z (Suc n) (v, a, f, w) = None"
  using assms
proof (induction n arbitrary: v a f w)
  case 0
  then show ?case by (simp add: octave_noise_infinite)
next
  case (Suc n)
  note ih = Suc.IH [OF frequency_doubles [OF Suc.prems]]
  show ?case
    by (subst ridged_loop.simps(2)) (simp add: ih Let_def del: ridged_loop.simps)
qed

lemma too_many_octaves:
  assumes "1024 < octaves"
  shows "fbm this x y z octaves persistence = None"
    and "turbulence this x y z octaves = None"
    and "ridged this x y z octaves = None"
proof -
  obtain n where n: "octaves = Suc n" and "1024 \<le> n"
    using assms by (cases octaves) simp_all
  then have "(2 :: real) ^ 1024 \<le> 2 ^ n"
    by (intro power_increasing) simp_all
  then have f: "(2 :: real) ^ 1024 \<le> 1 * 2 ^ n" by simp
  show "fbm this x y z octaves persistence = None"
    unfolding fbm_def n fbm_loop_infinite [OF f] by simp
  show "turbulence this x y z octaves = None"
    unfolding turbulence_def n turbulence_loop_infinite [OF f] by simp
  show "ridged this x y z octaves = None"
    unfolding ridged_def n ridged_loop_infinite [OF f] by simp
qed

subsection \<open>Values on the lattice and on the first axis\<close>

lemma noise_lattice:
  assumes "x \<in> \<int>" and "y \<in> \<int>" and "z \<in> \<int>"
  shows "noise (Noise3D_new s) x y z = Some 0"
proof -
  obtain i j k where "x = of_int i" "y = of_int j" "z = of_int k"
    using assms by (auto elim!: Ints_cases)
  then show ?thesis
    by (simp add: noise_table_Some fade_def lerp_def grad_arith Let_def)
qed

lemma noise_origin: "noise (Noise3D_new s) 0 0 0 = Some 0"
  by (rule noise_lattice) simp_all

lemma table_12345_axis:
  "perm (Noise3D_new 12345) ! 0 = 180"
  "perm (Noise3D_new 12345) ! Suc 0 = 99"
  "perm (Noise3D_new 12345) ! Suc (Suc 0) = 216"
  "perm (Noise3D_new 12345) ! 4 = 77"
  "perm (Noise3D_new 12345) ! 5 = 57"
  "perm (Noise3D_new 12345) ! 6 = 13"
  "perm (Noise3D_new 12345) ! 13 = 34"
  "perm (Noise3D_new 12345) ! 14 = 135"
  "perm (Noise3D_new 12345) ! 34 = 168"
  "perm (Noise3D_new 12345) ! 54 = 6"
  "perm (Noise3D_new 12345) ! 57 = 54"
  "perm (Noise3D_new 12345) ! 77 = 149"
  "perm (Noise3D_new 12345) ! 99 = 136"
  "perm (Noise3D_new 12345) ! 115 = 140"
  "perm (Noise3D_new 12345) ! 133 = 50"
  "perm (Noise3D_new 12345) ! 134 = 61"
  "perm (Noise3D_new 12345) ! 135 = 143"
  "perm (Noise3D_new 12345) ! 136 = 137"
  "perm (Noise3D_new 12345) ! 143 = 169"
  "perm (Noise3D_new 12345) ! 149 = 252"
  "perm (Noise3D_new 12345) ! 168 = 126"
  "perm (Noise3D_new 12345) ! 180 = 133"
  "perm (Noise3D_new 12345) ! 193 = 227"
  "perm (Noise3D_new 12345) ! 200 = 93"
  "perm (Noise3D_new 12345) ! 216 = 115"
  "perm (Noise3D_new 12345) ! 233 = 174"
  "perm (Noise3D_new 12345) ! 236 = 242"
  "perm (Noise3D_new 12345) ! 315 = 103"
  "perm (Noise3D_new 12345) ! 336 = 139"
  "perm (Noise3D_new 12345) ! 343 = 95"
  "perm (Noise3D_new 12345) ! 368 = 155"
  by (rule table_entry; simp add: schedule_12345 follow_numeral)+

lemma cells_axis:
  "cell 0 = 0" "cell 100 = 100" "cell 200 = 200" "cell (1 / 2) = 0" "cell (3 / 4) = 0" "cell (3 / 2) = 1"
  "cell (9 / 2) = 4" "cell (27 / 4) = 6" "cell (27 / 2) = 13"
  by (simp_all add: cell_eq_mod)

lemma noise_12345_axis:
  "noise (Noise3D_new 12345) (1 / 2) 0 0 = Some (1 / 4)"
  "noise (Noise3D_new 12345) (9 / 2) 0 0 = Some 0"
  "noise (Noise3D_new 12345) (3 / 2) 0 0 = Some (- (1 / 4))"
  "noise (Noise3D_new 12345) (27 / 2) 0 0 = Some (- (1 / 4))"
  "noise (Noise3D_new 12345) (3 / 4) 0 100 = Some (- (309 / 1024))"
  "noise (Noise3D_new 12345) (3 / 2) 0 200 = Some (1 / 4)"
  "noise (Noise3D_new 12345) (27 / 4) 0 100 = Some (459 / 2048)"
  "noise (Noise3D_new 12345) (27 / 2) 0 200 = Some 0"
  by (simp_all add: noise_table_Some cells_axis table_12345 table_12345_axis grad_arith
      fade_def lerp_def)

text \<open>
  Claim C3 states that \<^verbatim>\<open>fbm\<close>, \<^verbatim>\<open>turbulence\<close> and \<^verbatim>\<open>ridged\<close> stay in \<open>[0, 1]\<close>
  for every finite input, every \<open>octaves \<ge> 1\<close> and every finite persistence. They do
  not. With one octave, \<^verbatim>\<open>turbulence\<close> is the absolute value of \<^verbatim>\<open>noise\<close> and
  \<^verbatim>\<open>fbm\<close> is \<open>noise / 2 + 1 / 2\<close>, and both exceed 1 where \<^verbatim>\<open>noise\<close> does. With
  persistence \<open>-1\<close> and two octaves the sum of the amplitudes is \<open>0\<close>, and \<^verbatim>\<open>fbm\<close>
  divides by it. At \<open>x = 2^1023\<close>, a finite double, the second octave samples
  \<^verbatim>\<open>noise\<close> at \<open>2^1024\<close>, an infinity, and all three return \<^verbatim>\<open>NaN\<close>; with 1025
  octaves the frequency itself is an infinity; and with the persistence \<open>10^200\<close> the
  amplitude of the third octave is.
\<close>

theorem fbm_turbulence_exceed_one:
  "fbm (Noise3D_new 12345) (15 / 2) (249 / 2) (1139 / 8) 1 (1 / 2) = Some (266653 / 262144) \<and>
   (1 :: real) < 266653 / 262144 \<and>
   turbulence (Noise3D_new 12345) (15 / 2) (249 / 2) (1139 / 8) 1 = Some (135581 / 131072) \<and>
   (1 :: real) < 135581 / 131072 \<and>
   fbm (Noise3D_new 12345) 0 0 0 2 (- 1) = None \<and>
   fbm (Noise3D_new 12345) (2 ^ 1023) 0 0 2 (1 / 2) = None \<and>
   turbulence (Noise3D_new 12345) (2 ^ 1023) 0 0 2 = None \<and>
   ridged (Noise3D_new 12345) (2 ^ 1023) 0 0 2 = None \<and>
   fbm (Noise3D_new 12345) 0 0 0 1025 (1 / 2) = None \<and>
   turbulence (Noise3D_new 12345) 0 0 0 1025 = None \<and>
   ridged (Noise3D_new 12345) 0 0 0 1025 = None \<and>
   fbm (Noise3D_new 12345) (1 / 2) 0 0 3 (10 ^ 200) = None"
proof -
  have one: "fbm (Noise3D_new 12345) (15 / 2) (249 / 2) (1139 / 8) 1 (1 / 2) =
      Some (266653 / 262144)"
    "turbulence (Noise3D_new 12345) (15 / 2) (249 / 2) (1139 / 8) 1 = Some (135581 / 131072)"
    by (simp_all add: fbm_def turbulence_def octave_noise_def overflows_def noise_12345_value)
  have neg: "fbm (Noise3D_new 12345) 0 0 0 2 (- 1) = None"
    by (simp add: fbm_def octave_noise_def overflows_def noise_origin numeral_2_eq_2)
  have big: "fbm (Noise3D_new 12345) (2 ^ 1023) 0 0 2 (1 / 2) = None"
    "turbulence (Noise3D_new 12345) (2 ^ 1023) 0 0 2 = None"
    "ridged (Noise3D_new 12345) (2 ^ 1023) 0 0 2 = None"
    by (simp_all add: fbm_def turbulence_def ridged_def octave_noise_def overflows_def
        noise_lattice numeral_2_eq_2)
  have many: "fbm (Noise3D_new 12345) 0 0 0 1025 (1 / 2) = None"
    "turbulence (Noise3D_new 12345) 0 0 0 1025 = None"
    "ridged (Noise3D_new 12345) 0 0 0 1025 = None"
    by (simp_all add: too_many_octaves)
  have steep: "fbm (Noise3D_new 12345) (1 / 2) 0 0 3 (10 ^ 200) = None"
    by (simp add: fbm_def octave_noise_def overflows_def noise_12345_axis noise_lattice
        numeral_3_eq_3)
  from one neg big many steep show ?thesis by simp
qed

text \<open>
  Claim C3 as amended. For every seed, every number of octaves from 1 to 1024 and every
  input whose coordinates scaled by the largest frequency \<open>2^(octaves - 1)\<close> are finite
  doubles (smaller than \<open>2^1024\<close> in magnitude): \<^verbatim>\<open>ridged\<close> returns a number in
  \<open>[0, 1]\<close>, \<^verbatim>\<open>turbulence\<close> a number in \<open>[0, 3/2]\<close>, and \<^verbatim>\<open>fbm\<close>, for every
  persistence in \<open>[0, 1]\<close>, a number in \<open>[-1/4, 5/4]\<close>.
\<close>

theorem fbm_turbulence_ridged_range:
  assumes "0 < octaves" and "octaves \<le> 1024"
    and "\<bar>x\<bar> * 2 ^ (octaves - 1) < 2 ^ 1024"
    and "\<bar>y\<bar> * 2 ^ (octaves - 1) < 2 ^ 1024"
    and "\<bar>z\<bar> * 2 ^ (octaves - 1) < 2 ^ 1024"
    and "0 \<le> persistence" and "persistence \<le> 1"
  shows "(\<exists>r. fbm (Noise3D_new s) x y z octaves persistence = Some r \<and>
            - (1 / 4) \<le> r \<and> r \<le> 5 / 4) \<and>
         (\<exists>r. turbulence (Noise3D_new s) x y z octaves = Some r \<and> 0 \<le> r \<and> r \<le> 3 / 2) \<and>
         (\<exists>r. ridged (Noise3D_new s) x y z octaves = Some r \<and> 0 \<le> r \<and> r \<le> 1)"
  using fbm_bounded [OF assms] turbulence_bounded [OF assms(1-5)] ridged_bounded [OF assms(1-5)]
  by (intro conjI)

theorem fbm_turbulence_ridged_range_witness:
  "(0 :: nat) < 8 \<and> (8 :: nat) \<le> 1024 \<and>
   \<bar>15 / 2 :: real\<bar> * 2 ^ (8 - 1) < 2 ^ 1024 \<and>
   \<bar>249 / 2 :: real\<bar> * 2 ^ (8 - 1) < 2 ^ 1024 \<and>
   \<bar>1139 / 8 :: real\<bar> * 2 ^ (8 - 1) < 2 ^ 1024 \<and>
   (0 :: real) \<le> 1 / 2 \<and> (1 / 2 :: real) \<le> 1 \<and>
   (\<exists>r. fbm (Noise3D_new 12345) (15 / 2) (249 / 2) (1139 / 8) 8 (1 / 2) = Some r \<and>
       - (1 / 4) \<le> r \<and> r \<le> 5 / 4) \<and>
   (\<exists>r. turbulence (Noise3D_new 12345) (15 / 2) (249 / 2) (1139 / 8) 8 = Some r \<and>
       0 \<le> r \<and> r \<le> 3 / 2) \<and>
   (\<exists>r. ridged (Noise3D_new 12345) (15 / 2) (249 / 2) (1139 / 8) 8 = Some r \<and> 0 \<le> r \<and> r \<le> 1)"
proof -
  have o: "(0 :: nat) < 8" "(8 :: nat) \<le> 1024"
    and c: "\<bar>15 / 2 :: real\<bar> * 2 ^ (8 - 1) < 2 ^ 1024"
      "\<bar>249 / 2 :: real\<bar> * 2 ^ (8 - 1) < 2 ^ 1024"
      "\<bar>1139 / 8 :: real\<bar> * 2 ^ (8 - 1) < 2 ^ 1024"
    and p: "(0 :: real) \<le> 1 / 2" "(1 / 2 :: real) \<le> 1"
    by simp_all
  from fbm_turbulence_ridged_range [OF o c p, of 12345] o c p
  show ?thesis by (intro conjI) (elim conjE, assumption)+
qed

section \<open>The asteroid radius\<close>






section \<open>One full turn of the rotation\<close>





subsection \<open>The surface one full turn later\<close>

















section \<open>Colour lookup and classification\<close>

lemma PLANET_COLORS_terran: "js_index PLANET_COLORS ''terran'' = Obj terran_palette"
  by (simp add: PLANET_COLORS_def PLANET_COLORS_literal_def moreTypes_def add_type_def
      js_index_def Object_prototype_names_def)

lemma planet_colors_terran: "planet_colors ''terran'' = Obj terran_palette"
  by (simp add: planet_colors_def PLANET_COLORS_terran js_or_def)

lemma hexToRgb_terran:
  "hexToRgb (Some ''#001428'') = Rgb 0 20 40"
  "hexToRgb (Some ''#0066aa'') = Rgb 0 102 170"
  "hexToRgb (Some ''#33ccff'') = Rgb 51 204 255"
  "hexToRgb (Some ''#c8b090'') = Rgb 200 176 144"
  "hexToRgb (Some ''#4b3b2b'') = Rgb 75 59 43"
  "hexToRgb (Some ''#d8e8f8'') = Rgb 216 232 248"
  by (simp_all add: hexToRgb_def hex_digit_def)

lemma first_color_terran:
  "first_color (Obj terran_palette) ''deep_ocean'' = Inr (Rgb 0 20 40)"
  "first_color (Obj terran_palette) ''ocean'' = Inr (Rgb 0 102 170)"
  "first_color (Obj terran_palette) ''shallow'' = Inr (Rgb 51 204 255)"
  "first_color (Obj terran_palette) ''beach'' = Inr (Rgb 200 176 144)"
  "first_color (Obj terran_palette) ''mountain'' = Inr (Rgb 75 59 43)"
  "first_color (Obj terran_palette) ''snow'' = Inr (Rgb 216 232 248)"
  by (simp_all add: first_color_def terran_palette_def color_of_def hexToRgb_terran)

lemma scaled_forest:
  assumes "0.6 < moisture"
  shows "scaled_color (Obj terran_palette) ''forest'' moisture =
    Inr (hexToRgb (Some ([''#0a3a0a'', ''#1a4a1a'', ''#2a6a2a'', ''#4a8a4a''] !
      nat (\<lfloor>moisture * 4\<rfloor> mod 4))))"
proof -
  have "0 < \<lfloor>moisture * 4\<rfloor>" using assms by linarith
  then have "js_rem \<lfloor>moisture * 4\<rfloor> 4 = Some (\<lfloor>moisture * 4\<rfloor> mod 4)"
    by (simp add: js_rem_def)
  moreover have "0 \<le> \<lfloor>moisture * 4\<rfloor> mod 4" "\<lfloor>moisture * 4\<rfloor> mod 4 < 4"
    by simp_all
  ultimately show ?thesis
    by (simp add: scaled_color_def scaled_color_of_def terran_palette_def color_of_def)
qed

lemma scaled_grass:
  assumes "0.37 \<le> elevation"
  shows "scaled_color (Obj terran_palette) ''grass'' elevation =
    Inr (hexToRgb (Some ([''#2d5016'', ''#3d7026'', ''#5d9046'', ''#7daa66'', ''#9dcc88''] !
      nat (\<lfloor>elevation * 5\<rfloor> mod 5))))"
proof -
  have "1 \<le> elevation * 5" using assms by simp
  then have "0 < \<lfloor>elevation * 5\<rfloor>" by simp
  then have "js_rem \<lfloor>elevation * 5\<rfloor> 5 = Some (\<lfloor>elevation * 5\<rfloor> mod 5)"
    by (simp add: js_rem_def)
  moreover have "0 \<le> \<lfloor>elevation * 5\<rfloor> mod 5" "\<lfloor>elevation * 5\<rfloor> mod 5 < 5"
    by simp_all
  ultimately show ?thesis
    by (simp add: scaled_color_def scaled_color_of_def terran_palette_def color_of_def)
qed

text \<open>
  Claim C5. The terran classification is the threshold ladder: below elevation 0.35 it
  is water, by the depth \<open>0.35 - elevation\<close> (deep ocean above depth 0.15, ocean above
  depth 0.08, else shallow); from 0.35 and below 0.37 it is beach; above 0.8 it is
  mountain, and snow above 0.88; otherwise forest when the moisture exceeds 0.6, else
  grass. In each case the result is a colour of the named band of the terran palette
  (its first colour, or for forest and grass the colour at the scaled index), never an
  error. Elevation exactly 0.35 is beach: the ladder is a function, so it gives the same
  side at every evaluation.
\<close>

theorem terran_classification:
  fixes elevation moisture temperature texU texV phi :: real and nf :: Noise3D
  defines "c \<equiv> planet_surface_color ''terran'' elevation moisture temperature texU texV phi nf"
  shows
   "(elevation < 0.35 \<and> 0.35 - elevation > 0.15 \<longrightarrow> c = Inr (Rgb 0 20 40)) \<and>
    (elevation < 0.35 \<and> 0.35 - elevation \<le> 0.15 \<and> 0.35 - elevation > 0.08 \<longrightarrow>
       c = Inr (Rgb 0 102 170)) \<and>
    (elevation < 0.35 \<and> 0.35 - elevation \<le> 0.08 \<longrightarrow> c = Inr (Rgb 51 204 255)) \<and>
    (0.35 \<le> elevation \<and> elevation < 0.37 \<longrightarrow> c = Inr (Rgb 200 176 144)) \<and>
    (elevation > 0.88 \<longrightarrow> c = Inr (Rgb 216 232 248)) \<and>
    (elevation > 0.8 \<and> elevation \<le> 0.88 \<longrightarrow> c = Inr (Rgb 75 59 43)) \<and>
    (0.37 \<le> elevation \<and> elevation \<le> 0.8 \<and> moisture > 0.6 \<longrightarrow>
       c = Inr (hexToRgb (Some ([''#0a3a0a'', ''#1a4a1a'', ''#2a6a2a'', ''#4a8a4a''] !
             nat (\<lfloor>moisture * 4\<rfloor> mod 4))))) \<and>
    (0.37 \<le> elevation \<and> elevation \<le> 0.8 \<and> moisture \<le> 0.6 \<longrightarrow>
       c = Inr (hexToRgb (Some ([''#2d5016'', ''#3d7026'', ''#5d9046'', ''#7daa66'', ''#9dcc88''] !
             nat (\<lfloor>elevation * 5\<rfloor> mod 5))))) \<and>
    (elevation = 0.35 \<longrightarrow> c = Inr (Rgb 200 176 144))"
proof -
  have c: "c = getPlanetSurfaceColor ''terran'' elevation moisture temperature
      (Obj terran_palette) False texU texV phi nf"
    by (simp add: c_def planet_surface_color_def planet_colors_terran)
  show ?thesis
    unfolding c getPlanetSurfaceColor_def
    by (simp add: first_color_terran scaled_forest scaled_grass Let_def)
qed

theorem terran_classification_witness:
  "planet_surface_color ''terran'' 0.35 0.5 0 0 0 0 (Noise3D_new 12345) = Inr (Rgb 200 176 144) \<and>
   planet_surface_color ''terran'' 0.1 0.5 0 0 0 0 (Noise3D_new 12345) = Inr (Rgb 0 20 40) \<and>
   planet_surface_color ''terran'' 0.25 0.5 0 0 0 0 (Noise3D_new 12345) = Inr (Rgb 0 102 170) \<and>
   planet_surface_color ''terran'' 0.3 0.5 0 0 0 0 (Noise3D_new 12345) = Inr (Rgb 51 204 255) \<and>
   planet_surface_color ''terran'' 0.9 0.5 0 0 0 0 (Noise3D_new 12345) = Inr (Rgb 216 232 248) \<and>
   planet_surface_color ''terran'' 0.85 0.5 0 0 0 0 (Noise3D_new 12345) = Inr (Rgb 75 59 43)"
proof -
  note t = terran_classification [of _ "0.5" 0 0 0 0 "Noise3D_new 12345"]
  from t [of "0.35"] have "planet_surface_color ''terran'' 0.35 0.5 0 0 0 0 (Noise3D_new 12345) =
      Inr (Rgb 200 176 144)" by simp
  moreover from t [of "0.1"] have "planet_surface_color ''terran'' 0.1 0.5 0 0 0 0
      (Noise3D_new 12345) = Inr (Rgb 0 20 40)" by simp
  moreover from t [of "0.25"] have "planet_surface_color ''terran'' 0.25 0.5 0 0 0 0
      (Noise3D_new 12345) = Inr (Rgb 0 102 170)" by simp
  moreover from t [of "0.3"] have "planet_surface_color ''terran'' 0.3 0.5 0 0 0 0
      (Noise3D_new 12345) = Inr (Rgb 51 204 255)" by simp
  moreover from t [of "0.9"] have "planet_surface_color ''terran'' 0.9 0.5 0 0 0 0
      (Noise3D_new 12345) = Inr (Rgb 216 232 248)" by simp
  moreover from t [of "0.85"] have "planet_surface_color ''terran'' 0.85 0.5 0 0 0 0
      (Noise3D_new 12345) = Inr (Rgb 75 59 43)" by simp
  ultimately show ?thesis by (intro conjI)
qed

subsection \<open>The classification function returns a colour\<close>

lemma color_of_Some: "\<not> isl (color_of (Some xs) i)"
  by (cases i) (simp_all add: color_of_def)

lemma scaled_color_of_Some: "\<not> isl (scaled_color_of (Some xs) v)"
  by (simp add: scaled_color_of_def color_of_Some)

lemma field_defined: "colors \<noteq> Undefined \<Longrightarrow> \<exists>v. field colors name = Inr v"
  by (cases colors) simp_all

lemma gas_giant_color_total:
  assumes "colors \<noteq> Undefined"
  shows "\<not> isl (gas_giant_color colors texU texV latitude nf)"
proof (cases colors)
  case (Obj ps)
  then show ?thesis
    by (simp add: gas_giant_color_def Let_def color_of_Some)
next
  case Builtin
  then show ?thesis
    by (simp add: gas_giant_color_def Let_def color_of_Some)
next
  case Undefined
  with assms show ?thesis by simp
qed

lemma default_branch_total:
  assumes "colors \<noteq> Undefined"
    and "type \<notin> {''terran'', ''desert'', ''ice'', ''lava'', ''ocean'', ''jungle''}"
  shows "\<not> isl (getPlanetSurfaceColor type elevation moisture temperature colors False
    texU texV latitude nf)"
proof -
  obtain surface where surface: "field colors ''surface'' = Inr surface"
    using field_defined [OF assms(1)] by blast
  obtain grass where grass: "field colors ''grass'' = Inr grass"
    using field_defined [OF assms(1)] by blast
  show ?thesis
    using assms(2)
    by (simp add: getPlanetSurfaceColor_def surface grass scaled_color_of_Some)
qed

lemma planet_colors_defined: "planet_colors type \<noteq> Undefined"
  by (simp add: planet_colors_def PLANET_COLORS_terran js_or_def split: jsval.splits)

lemma star_colors_defined: "star_colors stellarClass \<noteq> Undefined"
  by (simp add: star_colors_def js_or_def js_index_def STAR_COLORS_def split: jsval.splits)

lemma planet_colors_named:
  "planet_colors ''gas_giant'' \<noteq> Undefined"
  "planet_colors ''desert'' = js_index PLANET_COLORS_literal ''desert''"
  "planet_colors ''ice'' = js_index PLANET_COLORS_literal ''ice''"
  "planet_colors ''lava'' = js_index PLANET_COLORS_literal ''lava''"
  "planet_colors ''ocean'' = js_index PLANET_COLORS_literal ''ocean''"
  "planet_colors ''jungle'' = js_index PLANET_COLORS_literal ''jungle''"
  by (simp_all add: planet_colors_def PLANET_COLORS_def PLANET_COLORS_literal_def moreTypes_def
      add_type_def js_index_def js_or_def Object_prototype_names_def)

lemma named_branches_total:
  "\<not> isl (planet_surface_color ''terran'' elevation moisture temperature texU texV phi nf)"
  "\<not> isl (planet_surface_color ''desert'' elevation moisture temperature texU texV phi nf)"
  "\<not> isl (planet_surface_color ''ice'' elevation moisture temperature texU texV phi nf)"
  "\<not> isl (planet_surface_color ''lava'' elevation moisture temperature texU texV phi nf)"
  "\<not> isl (planet_surface_color ''ocean'' elevation moisture temperature texU texV phi nf)"
  "\<not> isl (planet_surface_color ''jungle'' elevation moisture temperature texU texV phi nf)"
  by (simp_all add: planet_surface_color_def planet_colors_terran planet_colors_named
      getPlanetSurfaceColor_def js_index_def PLANET_COLORS_literal_def terran_palette_def
      first_color_def first_color_or_def scaled_color_def scaled_color_of_def color_of_Some
      Let_def)

lemma planet_surface_color_total:
  "\<not> isl (planet_surface_color type elevation moisture temperature texU texV phi nf)"
proof (cases "type = ''gas_giant''")
  case True
  then show ?thesis
    by (simp add: planet_surface_color_def getPlanetSurfaceColor_def gas_giant_color_total
        planet_colors_defined)
next
  case False
  show ?thesis
  proof (cases "type \<in> {''terran'', ''desert'', ''ice'', ''lava'', ''ocean'', ''jungle''}")
    case True
    then show ?thesis using named_branches_total by auto
  next
    case False
    with \<open>type \<noteq> ''gas_giant''\<close> show ?thesis
      unfolding planet_surface_color_def
      by (simp only: default_branch_total [OF planet_colors_defined] not_False_eq_True)
  qed
qed

subsection \<open>The keys of the configuration\<close>

lemma table_keys:
  "map fst STAR_COLORS = stellarClasses"
  "map fst starSizes = stellarClasses"
  "map fst planetSizes = planetTypes"
  "set (map fst PLANET_COLORS) = set planetTypes"
  by (simp_all add: STAR_COLORS_def starSizes_def stellarClasses_def planetSizes_def
      planetTypes_def PLANET_COLORS_def PLANET_COLORS_literal_def moreTypes_def add_type_def
      js_index_def Object_prototype_names_def insert_commute)

lemma map_of_key:
  assumes "k \<in> set (map fst tbl)"
  obtains v where "map_of tbl k = Some v"
  using assms by (cases "map_of tbl k") (simp_all add: map_of_eq_None_iff)

lemma own_entry:
  assumes "map_of tbl key = Some ps"
  shows "js_or (js_index tbl key) d = Obj ps"
  using assms by (simp add: js_index_def js_or_def)

lemma configured_star:
  assumes "stellarClass \<in> set stellarClasses"
  shows "\<exists>sz colors. map_of starSizes stellarClass = Some sz \<and>
      map_of STAR_COLORS stellarClass = Some colors \<and>
      star_colors stellarClass = Obj colors \<and>
      generateStar_init stellarClass =
        Some (Inr (createCanvas (sz * starFrames) sz, hexToRgb (map_of colors ''base''),
          hexToRgb (map_of colors ''bright''), hexToRgb (map_of colors ''glow'')))"
proof -
  obtain sz where sz: "map_of starSizes stellarClass = Some sz"
    using assms by (rule map_of_key [of _ starSizes, unfolded table_keys])
  obtain colors where colors: "map_of STAR_COLORS stellarClass = Some colors"
    using assms by (rule map_of_key [of _ STAR_COLORS, unfolded table_keys])
  have c: "star_colors stellarClass = Obj colors"
    unfolding star_colors_def using colors by (rule own_entry)
  have "generateStar_init stellarClass =
      Some (Inr (createCanvas (sz * starFrames) sz, hexToRgb (map_of colors ''base''),
        hexToRgb (map_of colors ''bright''), hexToRgb (map_of colors ''glow'')))"
    by (simp add: generateStar_init_def sz c)
  with sz colors c show ?thesis by blast
qed

lemma configured_planet:
  assumes "type \<in> set planetTypes"
  shows "\<exists>sz colors. map_of planetSizes type = Some sz \<and>
      map_of PLANET_COLORS type = Some colors \<and>
      planet_colors type = Obj colors \<and>
      generatePlanet type \<noteq> None"
proof -
  obtain sz where sz: "map_of planetSizes type = Some sz"
    using assms by (rule map_of_key [of _ planetSizes, unfolded table_keys])
  obtain colors where colors: "map_of PLANET_COLORS type = Some colors"
    using assms by (rule map_of_key [of _ PLANET_COLORS, unfolded table_keys])
  have c: "planet_colors type = Obj colors"
    unfolding planet_colors_def using colors by (rule own_entry)
  have "generatePlanet type \<noteq> None"
    by (simp add: generatePlanet_def sz)
  with sz colors c show ?thesis by blast
qed

subsection \<open>The fallback of the table lookups\<close>

lemma absent_key:
  assumes "key \<notin> set (map fst tbl)" and "key \<notin> set Object_prototype_names"
  shows "js_or (js_index tbl key) d = d"
proof -
  have "map_of tbl key = None"
    using assms(1) by (simp add: map_of_eq_None_iff)
  then show ?thesis
    using assms(2) by (simp add: js_index_def js_or_def)
qed

lemma unsized_key:
  assumes "key \<notin> set (map fst tbl)"
  shows "map_of tbl key = None"
  using assms by (simp add: map_of_eq_None_iff)

text \<open>
  Claim C9 states that for every key, also one that the tables do not have, the lookup
  falls back to the \<open>G\<close> colours (stars) or the terran palette (planets), and that
  classification fails for no key. Two kinds of key show that it does not. The tables
  are object literals, and \<^verbatim>\<open>STAR_COLORS['constructor']\<close> is the function \<^verbatim>\<open>Object\<close>
  that every object inherits; it is truthy, so \<^verbatim>\<open>|| STAR_COLORS['G']\<close> is not taken,
  and likewise for \<^verbatim>\<open>PLANET_COLORS\<close>. For a key such as \<open>Quasar\<close> or \<open>plasma\<close>,
  which the tables neither have nor inherit, the lookup does give the default, but the
  generator makes no sprite: \<^verbatim>\<open>CONFIG.starSizes\<close> and \<^verbatim>\<open>CONFIG.planetSizes\<close> have no
  entry for it, and \<^verbatim>\<open>createCanvas\<close> is called with \<^verbatim>\<open>NaN\<close> before a colour is
  computed or a block classified.
\<close>

theorem unknown_key_not_generated:
  "star_colors ''constructor'' = Builtin \<and>
   planet_colors ''constructor'' = Builtin \<and>
   star_colors ''Quasar'' =
     Obj [(''base'', ''#fff4ea''), (''bright'', ''#ffffaa''), (''glow'', ''#ffeecc'')] \<and>
   planet_colors ''plasma'' = Obj terran_palette \<and>
   generateStar_init ''Quasar'' = None \<and>
   generatePlanet ''plasma'' = None \<and>
   generateStar_init ''constructor'' = None \<and>
   generatePlanet ''constructor'' = None"
proof -
  have s: "star_colors ''constructor'' = Builtin"
    "star_colors ''Quasar'' =
       Obj [(''base'', ''#fff4ea''), (''bright'', ''#ffffaa''), (''glow'', ''#ffeecc'')]"
    by (simp_all add: star_colors_def js_or_def js_index_def STAR_COLORS_def
        Object_prototype_names_def)
  have p: "planet_colors ''constructor'' = Builtin" "planet_colors ''plasma'' = Obj terran_palette"
    by (simp_all add: planet_colors_def js_or_def js_index_def PLANET_COLORS_def
        PLANET_COLORS_literal_def moreTypes_def add_type_def Object_prototype_names_def)
  have g: "generateStar_init ''Quasar'' = None" "generateStar_init ''constructor'' = None"
    by (simp_all add: generateStar_init_def starSizes_def)
  have q: "generatePlanet ''plasma'' = None" "generatePlanet ''constructor'' = None"
    by (simp_all add: generatePlanet_def planetSizes_def)
  from s p g q show ?thesis by (intro conjI)
qed

text \<open>
  Claim C9 as amended. The generators are called with the stellar classes and the planet
  types of the configuration only. For each of them the size table and the colour table
  have an entry of their own, the lookup returns that entry (the default is not needed),
  the canvas is made, the three star colours are those of the entry, and the
  classification of a planet block returns a colour for every elevation, moisture,
  temperature and texture coordinate. For a key that the colour table neither has nor
  inherits from \<^verbatim>\<open>Object.prototype\<close> the lookup expression gives the default (the
  \<open>G\<close> colours, the terran palette), and no sprite is made for it.
\<close>

theorem configured_keys_classified:
  "(\<forall>stellarClass \<in> set stellarClasses.
      \<exists>sz colors. map_of starSizes stellarClass = Some sz \<and>
        map_of STAR_COLORS stellarClass = Some colors \<and>
        star_colors stellarClass = Obj colors \<and>
        generateStar_init stellarClass =
          Some (Inr (createCanvas (sz * starFrames) sz, hexToRgb (map_of colors ''base''),
            hexToRgb (map_of colors ''bright''), hexToRgb (map_of colors ''glow'')))) \<and>
   (\<forall>type \<in> set planetTypes.
      (\<exists>sz colors. map_of planetSizes type = Some sz \<and>
         map_of PLANET_COLORS type = Some colors \<and>
         planet_colors type = Obj colors \<and>
         generatePlanet type \<noteq> None) \<and>
      (\<forall>elevation moisture temperature texU texV phi nf.
         \<exists>color. planet_surface_color type elevation moisture temperature texU texV phi nf =
           Inr color)) \<and>
   (\<forall>key. key \<notin> set stellarClasses \<and> key \<notin> set Object_prototype_names \<longrightarrow>
      star_colors key = js_index STAR_COLORS ''G'' \<and> generateStar_init key = None) \<and>
   (\<forall>key. key \<notin> set planetTypes \<and> key \<notin> set Object_prototype_names \<longrightarrow>
      planet_colors key = Obj terran_palette \<and> generatePlanet key = None)"
proof (intro conjI ballI allI impI)
  fix stellarClass
  assume "stellarClass \<in> set stellarClasses"
  then show "\<exists>sz colors. map_of starSizes stellarClass = Some sz \<and>
        map_of STAR_COLORS stellarClass = Some colors \<and>
        star_colors stellarClass = Obj colors \<and>
        generateStar_init stellarClass =
          Some (Inr (createCanvas (sz * starFrames) sz, hexToRgb (map_of colors ''base''),
            hexToRgb (map_of colors ''bright''), hexToRgb (map_of colors ''glow'')))"
    by (rule configured_star)
next
  fix type
  assume "type \<in> set planetTypes"
  then show "\<exists>sz colors. map_of planetSizes type = Some sz \<and>
         map_of PLANET_COLORS type = Some colors \<and>
         planet_colors type = Obj colors \<and>
         generatePlanet type \<noteq> None"
    by (rule configured_planet)
next
  fix type :: string and elevation moisture temperature texU texV phi :: real
    and nf :: Noise3D
  show "\<exists>color. planet_surface_color type elevation moisture temperature texU texV phi nf =
      Inr color"
    using planet_surface_color_total [of type elevation moisture temperature texU texV phi nf]
    by (cases "planet_surface_color type elevation moisture temperature texU texV phi nf")
      simp_all
next
  fix key
  assume k: "key \<notin> set stellarClasses \<and> key \<notin> set Object_prototype_names"
  then have "key \<notin> set (map fst STAR_COLORS)" "key \<notin> set Object_prototype_names"
    by (simp_all add: table_keys)
  then show "star_colors key = js_index STAR_COLORS ''G''"
    unfolding star_colors_def by (rule absent_key)
  from k have "key \<notin> set (map fst starSizes)"
    by (simp add: table_keys)
  then have "map_of starSizes key = None" by (rule unsized_key)
  then show "generateStar_init key = None"
    by (simp add: generateStar_init_def)
next
  fix key
  assume k: "key \<notin> set planetTypes \<and> key \<notin> set Object_prototype_names"
  then have "key \<notin> set (map fst PLANET_COLORS)" "key \<notin> set Object_prototype_names"
    by (simp_all only: table_keys not_False_eq_True)
  then have "planet_colors key = js_index PLANET_COLORS ''terran''"
    unfolding planet_colors_def by (rule absent_key)
  then show "planet_colors key = Obj terran_palette"
    by (simp add: PLANET_COLORS_terran)
  from k have "key \<notin> set (map fst planetSizes)"
    by (simp add: table_keys)
  then have "map_of planetSizes key = None" by (rule unsized_key)
  then show "generatePlanet key = None"
    by (simp add: generatePlanet_def)
qed

theorem configured_keys_classified_witness:
  "''G'' \<in> set stellarClasses \<and> ''ice'' \<in> set planetTypes \<and>
   ''Quasar'' \<notin> set stellarClasses \<and> ''Quasar'' \<notin> set Object_prototype_names \<and>
   ''plasma'' \<notin> set planetTypes \<and> ''plasma'' \<notin> set Object_prototype_names \<and>
   generateStar_init ''G'' =
     Some (Inr (createCanvas 9600 1200, Rgb 255 244 234, Rgb 255 255 170, Rgb 255 238 204)) \<and>
   generatePlanet ''ice'' \<noteq> None \<and>
   (\<exists>color. planet_surface_color ''ice'' (1 / 2) (1 / 2) (1 / 2) 0 0 0 (Noise3D_new 12345) =
      Inr color) \<and>
   star_colors ''Quasar'' = js_index STAR_COLORS ''G'' \<and> generateStar_init ''Quasar'' = None \<and>
   planet_colors ''plasma'' = Obj terran_palette \<and> generatePlanet ''plasma'' = None"
proof -
  have m: "''G'' \<in> set stellarClasses" "''ice'' \<in> set planetTypes"
    and n: "''Quasar'' \<notin> set stellarClasses" "''Quasar'' \<notin> set Object_prototype_names"
      "''plasma'' \<notin> set planetTypes" "''plasma'' \<notin> set Object_prototype_names"
    by (simp_all add: stellarClasses_def planetTypes_def Object_prototype_names_def)
  note t = configured_keys_classified
  from t m(1) obtain sz colors where g: "map_of starSizes ''G'' = Some sz"
    "map_of STAR_COLORS ''G'' = Some colors"
    "generateStar_init ''G'' =
       Some (Inr (createCanvas (sz * starFrames) sz, hexToRgb (map_of colors ''base''),
         hexToRgb (map_of colors ''bright''), hexToRgb (map_of colors ''glow'')))"
    by blast
  have "sz = 1200" "colors = [(''base'', ''#fff4ea''), (''bright'', ''#ffffaa''), (''glow'', ''#ffeecc'')]"
    using g(1,2) by (simp_all add: starSizes_def STAR_COLORS_def)
  with g(3) have star: "generateStar_init ''G'' =
     Some (Inr (createCanvas 9600 1200, Rgb 255 244 234, Rgb 255 255 170, Rgb 255 238 204))"
    by (simp add: starFrames_def hexToRgb_def hex_digit_def)
  from t m(2) have planet: "generatePlanet ''ice'' \<noteq> None"
    "\<exists>color. planet_surface_color ''ice'' (1 / 2) (1 / 2) (1 / 2) 0 0 0 (Noise3D_new 12345) =
      Inr color"
    by blast+
  from t n have absent: "star_colors ''Quasar'' = js_index STAR_COLORS ''G''"
    "generateStar_init ''Quasar'' = None"
    "planet_colors ''plasma'' = Obj terran_palette" "generatePlanet ''plasma'' = None"
    by blast+
  from m n star planet absent show ?thesis by (intro conjI)
qed

section \<open>The alpha channel of the planet atlas\<close>

lemma fold_preserve:
  assumes "\<And>x c. x \<in> set xs \<Longrightarrow> P c \<Longrightarrow> P (f x c)" and "P c"
  shows "P (fold f xs c)"
  using assms by (induction xs arbitrary: c) simp_all

lemma fold_establish:
  assumes "x \<in> set xs" and "\<And>y c. Q c \<Longrightarrow> Q (f y c)" and "\<And>c. Q (f x c)"
  shows "Q (fold f xs c)"
  using assms(1)
proof (induction xs arbitrary: c)
  case Nil
  then show ?case by simp
next
  case (Cons y ys)
  show ?case
  proof (cases "x \<in> set ys")
    case True
    then show ?thesis by (simp add: Cons.IH)
  next
    case False
    with Cons.prems have "y = x" by simp
    then have "Q (f y c)" by (simp add: assms(3))
    then have "Q (fold f ys (f y c))"
      by (intro fold_preserve [where P = Q]) (simp_all add: assms(2))
    then show ?thesis by simp
  qed
qed

lemma planet_block_alpha_disc: "d \<le> radius \<Longrightarrow> planet_block_alpha hasAtmosphere radius d = 255"
  by (simp add: planet_block_alpha_def Let_def)

lemma planet_block_alpha_outside:
  assumes "0 < radius" and "radius * 1.15 \<le> d"
  shows "planet_block_alpha hasAtmosphere radius d = 0"
proof -
  have "radius < radius * 1.15" using assms(1) by simp
  with assms(2) have "radius < d" by simp
  then show ?thesis using assms(2) by (simp add: planet_block_alpha_def Let_def)
qed

lemma planet_block_alpha_bare:
  "radius < d \<Longrightarrow> planet_block_alpha False radius d = 0"
  by (simp add: planet_block_alpha_def Let_def)

lemma draw_planet_block_dims [simp]:
  "width (draw_planet_block hasAtmosphere sz pixelSize frame py px c) = width c"
  "height (draw_planet_block hasAtmosphere sz pixelSize frame py px c) = height c"
  by (simp_all add: draw_planet_block_def fillRect_def Let_def)

lemma draw_planet_block_keeps_opaque:
  "alpha c X Y = 1 \<Longrightarrow> alpha (draw_planet_block hasAtmosphere sz pixelSize frame py px c) X Y = 1"
  by (simp add: draw_planet_block_def fillRect_def Let_def)

lemma draw_planet_block_disc:
  assumes "block_dist sz pixelSize px py \<le> real sz * 0.42"
    and "frame * sz + px * pixelSize \<le> X" and "X < frame * sz + px * pixelSize + pixelSize"
    and "py * pixelSize \<le> Y" and "Y < py * pixelSize + pixelSize"
    and "X < width c" and "Y < height c"
  shows "alpha (draw_planet_block hasAtmosphere sz pixelSize frame py px c) X Y = 1"
proof -
  have a: "planet_block_alpha hasAtmosphere (real sz * 0.42) (block_dist sz pixelSize px py) = 255"
    using assms(1) by (rule planet_block_alpha_disc)
  show ?thesis
    unfolding draw_planet_block_def Let_def a using assms(2-) by (simp add: fillRect_def)
qed

lemma draw_planet_block_keeps_transparent:
  assumes "alpha c X Y = 0"
    and "planet_block_alpha hasAtmosphere (real sz * 0.42) (block_dist sz pixelSize px py) = 0 \<or>
      \<not> (frame * sz + px * pixelSize \<le> X \<and> X < frame * sz + px * pixelSize + pixelSize \<and>
         py * pixelSize \<le> Y \<and> Y < py * pixelSize + pixelSize)"
  shows "alpha (draw_planet_block hasAtmosphere sz pixelSize frame py px c) X Y = 0"
  using assms by (auto simp: draw_planet_block_def fillRect_def Let_def)

lemma block_of_pixel:
  fixes pixelSize sz frames X Y :: nat
  assumes "0 < pixelSize" and "pixelSize dvd sz" and "X < sz * frames" and "Y < sz"
  shows "X div sz < frames" and "X mod sz div pixelSize < sz div pixelSize"
    and "Y div pixelSize < sz div pixelSize"
    and "X div sz * sz + X mod sz div pixelSize * pixelSize \<le> X"
    and "X < X div sz * sz + X mod sz div pixelSize * pixelSize + pixelSize"
    and "Y div pixelSize * pixelSize \<le> Y" and "Y < Y div pixelSize * pixelSize + pixelSize"
proof -
  have sz: "0 < sz" using assms(4) by linarith
  show "X div sz < frames"
    using assms(3) sz by (simp add: less_mult_imp_div_less mult.commute)
  have e: "sz = sz div pixelSize * pixelSize"
    using assms(2) by simp
  have "X mod sz < sz div pixelSize * pixelSize"
    using sz e by simp
  then show "X mod sz div pixelSize < sz div pixelSize"
    by (rule less_mult_imp_div_less)
  have "Y < sz div pixelSize * pixelSize"
    using assms(4) e by simp
  then show "Y div pixelSize < sz div pixelSize"
    by (rule less_mult_imp_div_less)
  have m: "X mod sz = X mod sz div pixelSize * pixelSize + X mod sz mod pixelSize"
    by simp
  have x: "X = X div sz * sz + X mod sz"
    by simp
  have r: "X mod sz mod pixelSize < pixelSize"
    using assms(1) by simp
  show "X div sz * sz + X mod sz div pixelSize * pixelSize \<le> X"
    using m x by linarith
  show "X < X div sz * sz + X mod sz div pixelSize * pixelSize + pixelSize"
    using m x r by linarith
  have y: "Y = Y div pixelSize * pixelSize + Y mod pixelSize"
    by simp
  have ry: "Y mod pixelSize < pixelSize"
    using assms(1) by simp
  show "Y div pixelSize * pixelSize \<le> Y"
    using y by linarith
  show "Y < Y div pixelSize * pixelSize + pixelSize"
    using y ry by linarith
qed

lemma block_unique:
  fixes pixelSize sz frame px py X Y :: nat
  assumes "0 < pixelSize" and "pixelSize dvd sz" and "px < sz div pixelSize"
    and "frame * sz + px * pixelSize \<le> X" and "X < frame * sz + px * pixelSize + pixelSize"
    and "py * pixelSize \<le> Y" and "Y < py * pixelSize + pixelSize"
  shows "frame = X div sz" and "px = X mod sz div pixelSize" and "py = Y div pixelSize"
proof -
  have "Suc px \<le> sz div pixelSize" using assms(3) by simp
  then have "Suc px * pixelSize \<le> sz div pixelSize * pixelSize"
    by (rule mult_le_mono1)
  then have b: "px * pixelSize + pixelSize \<le> sz"
    using assms(2) by simp
  have "sz * frame \<le> X" using assms(4) by (simp add: mult.commute)
  moreover have "X < sz * Suc frame" using assms(5) b by (simp add: mult.commute)
  ultimately show f: "frame = X div sz"
    by (rule div_nat_eqI [symmetric])
  have "X = X div sz * sz + X mod sz" by simp
  then have "pixelSize * px \<le> X mod sz" and "X mod sz < pixelSize * Suc px"
    using assms(4,5) unfolding f [symmetric] by (simp_all add: mult.commute)
  then show "px = X mod sz div pixelSize"
    by (rule div_nat_eqI [symmetric])
  have "pixelSize * py \<le> Y" and "Y < pixelSize * Suc py"
    using assms(6,7) by (simp_all add: mult.commute)
  then show "py = Y div pixelSize"
    by (rule div_nat_eqI [symmetric])
qed

lemma ceiling_divide_dvd:
  fixes pixelSize sz :: nat
  assumes "0 < pixelSize" and "pixelSize dvd sz"
  shows "nat \<lceil>real sz / real pixelSize\<rceil> = sz div pixelSize"
proof -
  have "real sz / real pixelSize = real (sz div pixelSize)"
    using assms by (simp add: real_of_nat_div)
  then show ?thesis by simp
qed

lemma render_planet_dims:
  "width (render_planet hasAtmosphere sz frames pixelSize) = sz * frames \<and>
   height (render_planet hasAtmosphere sz frames pixelSize) = sz"
proof -
  let ?P = "\<lambda>c :: canvas. width c = sz * frames \<and> height c = sz"
  have "?P (createCanvas (sz * frames) sz)"
    by (simp add: createCanvas_def)
  then show ?thesis
    unfolding render_planet_def Let_def
    by (intro fold_preserve [where P = ?P]) simp_all
qed

lemma render_planet_opaque:
  fixes pixelSize sz frames X Y :: nat
  assumes "0 < pixelSize" and "pixelSize dvd sz" and "X < sz * frames" and "Y < sz"
    and "block_dist sz pixelSize (X mod sz div pixelSize) (Y div pixelSize) \<le> real sz * 0.42"
  shows "alpha (render_planet hasAtmosphere sz frames pixelSize) X Y = 1"
proof -
  define pw where "pw = nat \<lceil>real sz / real pixelSize\<rceil>"
  have pw: "pw = sz div pixelSize"
    unfolding pw_def using assms(1,2) by (rule ceiling_divide_dvd)
  define f0 px0 py0 where "f0 = X div sz" and "px0 = X mod sz div pixelSize"
    and "py0 = Y div pixelSize"
  note b = block_of_pixel [OF assms(1-4), folded f0_def px0_def py0_def pw]
  define Q where "Q c \<longleftrightarrow> (width c = sz * frames \<and> height c = sz \<longrightarrow> alpha c X Y = 1)" for c :: canvas
  define D where "D = draw_planet_block hasAtmosphere sz pixelSize"
  define row where "row f py c = fold (\<lambda>px c. D f py px c) [0..<pw] c" for f py c
  define fr where "fr f c = fold (\<lambda>py c. row f py c) [0..<pw] c" for f c
  have keep: "Q (D f py px c)" if "Q c" for f py px c
    using that by (simp add: Q_def D_def draw_planet_block_keeps_opaque)
  have here: "Q (D f0 py0 px0 c)" for c
  proof -
    have "alpha (D f0 py0 px0 c) X Y = 1" if "width c = sz * frames" and "height c = sz"
    proof -
      have "X < width c" and "Y < height c"
        using assms(3,4) by (simp_all only: that)
      then show ?thesis
        unfolding D_def
        by (rule draw_planet_block_disc [OF assms(5) [folded px0_def py0_def] b(4-7)])
    qed
    then show ?thesis
      unfolding Q_def D_def draw_planet_block_dims by blast
  qed
  have row_keep: "Q (row f py c)" if "Q c" for f py c
    unfolding row_def using that by (intro fold_preserve [where P = Q]) (simp_all add: keep)
  have mem: "f0 \<in> set [0..<frames]" "px0 \<in> set [0..<pw]" "py0 \<in> set [0..<pw]"
    using b(1-3) by simp_all
  have row_here: "Q (row f0 py0 c)" for c
    unfolding row_def
    by (rule fold_establish [where Q = Q, OF mem(2)]) (simp_all add: keep here)
  have fr_keep: "Q (fr f c)" if "Q c" for f c
    unfolding fr_def using that by (intro fold_preserve [where P = Q]) (simp_all add: row_keep)
  have fr_here: "Q (fr f0 c)" for c
    unfolding fr_def
    by (rule fold_establish [where Q = Q, OF mem(3)]) (simp_all add: row_keep row_here)
  have "Q (fold fr [0..<frames] (createCanvas (sz * frames) sz))"
    by (rule fold_establish [where Q = Q, OF mem(1)]) (simp_all add: fr_keep fr_here)
  moreover have "render_planet hasAtmosphere sz frames pixelSize =
      fold fr [0..<frames] (createCanvas (sz * frames) sz)"
    unfolding render_planet_def Let_def pw_def [symmetric] fr_def row_def D_def ..
  ultimately show ?thesis
    using render_planet_dims [of hasAtmosphere sz frames pixelSize] by (simp add: Q_def)
qed

lemma render_planet_transparent:
  fixes pixelSize sz frames X Y :: nat
  assumes "0 < pixelSize" and "pixelSize dvd sz" and "X < sz * frames" and "Y < sz"
    and "planet_block_alpha hasAtmosphere (real sz * 0.42)
      (block_dist sz pixelSize (X mod sz div pixelSize) (Y div pixelSize)) = 0"
  shows "alpha (render_planet hasAtmosphere sz frames pixelSize) X Y = 0"
proof -
  define pw where "pw = nat \<lceil>real sz / real pixelSize\<rceil>"
  have pw: "pw = sz div pixelSize"
    unfolding pw_def using assms(1,2) by (rule ceiling_divide_dvd)
  define P where "P c \<longleftrightarrow> alpha c X Y = 0" for c :: canvas
  define D where "D = draw_planet_block hasAtmosphere sz pixelSize"
  define row where "row f py c = fold (\<lambda>px c. D f py px c) [0..<pw] c" for f py c
  define fr where "fr f c = fold (\<lambda>py c. row f py c) [0..<pw] c" for f c
  have keep: "P (D f py px c)" if "P c" and "px < pw" for f py px c
  proof (cases "f * sz + px * pixelSize \<le> X \<and> X < f * sz + px * pixelSize + pixelSize \<and>
         py * pixelSize \<le> Y \<and> Y < py * pixelSize + pixelSize")
    case True
    then have "px = X mod sz div pixelSize" and "py = Y div pixelSize"
      using block_unique [OF assms(1,2) that(2) [unfolded pw], of f X py Y] by simp_all
    with assms(5) that(1) show ?thesis
      unfolding P_def D_def by (intro draw_planet_block_keeps_transparent) simp_all
  next
    case False
    with that(1) show ?thesis
      unfolding P_def D_def by (intro draw_planet_block_keeps_transparent) simp_all
  qed
  have row_keep: "P (row f py c)" if "P c" for f py c
    unfolding row_def using that by (intro fold_preserve [where P = P]) (simp_all add: keep)
  have fr_keep: "P (fr f c)" if "P c" for f c
    unfolding fr_def using that by (intro fold_preserve [where P = P]) (simp_all add: row_keep)
  have "P (createCanvas (sz * frames) sz)"
    by (simp add: P_def createCanvas_def)
  then have "P (fold fr [0..<frames] (createCanvas (sz * frames) sz))"
    by (intro fold_preserve [where P = P]) (simp_all add: fr_keep)
  moreover have "render_planet hasAtmosphere sz frames pixelSize =
      fold fr [0..<frames] (createCanvas (sz * frames) sz)"
    unfolding render_planet_def Let_def pw_def [symmetric] fr_def row_def D_def ..
  ultimately show ?thesis by (simp add: P_def)
qed

lemma planet_size:
  assumes "type \<in> set planetTypes"
  shows "\<exists>sz. map_of planetSizes type = Some sz \<and> 0 < sz \<and> planetPixelSize dvd sz"
  using assms by (auto simp: planetTypes_def planetSizes_def planetPixelSize_def)

text \<open>
  Claim C6. For every planet type of the configuration, the atlas has the width
  \<open>bodySize \<cdot> frameCount\<close> and the height \<open>bodySize\<close>. Every pixel of the atlas lies
  in exactly one block of one frame, and \<^verbatim>\<open>dist\<close> is the distance of the centre of
  that block from the centre of the body: where \<open>dist \<le> radius\<close> the pixel is opaque
  (opacity 1, alpha byte 255), and where \<open>dist\<close> is at or beyond the outer radius
  \<open>1.15 radius\<close> of the atmosphere glow the pixel is transparent (opacity 0).
\<close>

theorem planet_atlas:
  assumes "type \<in> set planetTypes"
  shows "\<exists>c bodySize. generatePlanet type = Some c \<and> map_of planetSizes type = Some bodySize \<and>
    width c = bodySize * planetFrames \<and> height c = bodySize \<and>
    (\<forall>X Y. X < width c \<and> Y < height c \<longrightarrow>
       (let d = block_dist bodySize planetPixelSize
                  (X mod bodySize div planetPixelSize) (Y div planetPixelSize);
            radius = real bodySize * 0.42
        in (d \<le> radius \<longrightarrow> alpha c X Y = 1) \<and> (radius * 1.15 \<le> d \<longrightarrow> alpha c X Y = 0)))"
proof -
  obtain sz where sz: "map_of planetSizes type = Some sz" "0 < sz" "planetPixelSize dvd sz"
    using planet_size [OF assms] by blast
  define hasAtmosphere where
    "hasAtmosphere \<longleftrightarrow> type \<in> set [''terran'', ''ocean'', ''jungle'', ''super_earth'']"
  define c where "c = render_planet hasAtmosphere sz planetFrames planetPixelSize"
  have g: "generatePlanet type = Some c"
    by (simp add: generatePlanet_def sz(1) Let_def c_def hasAtmosphere_def)
  have ps: "0 < planetPixelSize" by (simp add: planetPixelSize_def)
  have dims: "width c = sz * planetFrames" "height c = sz"
    unfolding c_def using render_planet_dims [of hasAtmosphere sz planetFrames planetPixelSize]
    by simp_all
  have r: "0 < real sz * 0.42" using sz(2) by simp
  have "alpha c X Y = 1"
    if "X < sz * planetFrames" and "Y < sz"
      and "block_dist sz planetPixelSize (X mod sz div planetPixelSize) (Y div planetPixelSize)
        \<le> real sz * 0.42" for X Y
    unfolding c_def using ps sz(3) that by (rule render_planet_opaque)
  moreover have "alpha c X Y = 0"
    if "X < sz * planetFrames" and "Y < sz"
      and "real sz * 0.42 * 1.15 \<le>
        block_dist sz planetPixelSize (X mod sz div planetPixelSize) (Y div planetPixelSize)"
    for X Y
    unfolding c_def using ps sz(3) that(1,2)
    by (rule render_planet_transparent) (rule planet_block_alpha_outside [OF r that(3)])
  ultimately show ?thesis
    using g sz(1) dims by (simp add: Let_def)
qed

theorem planet_atlas_witness:
  "\<exists>c. generatePlanet ''terran'' = Some c \<and> width c = 800 * 24 \<and> height c = 800 \<and>
     alpha c 400 400 = 1 \<and> alpha c 0 0 = 0 \<and> alpha c 19199 799 = 0"
proof -
  have "''terran'' \<in> set planetTypes" by (simp add: planetTypes_def)
  from planet_atlas [OF this] obtain c where c: "generatePlanet ''terran'' = Some c"
    and dims: "width c = 800 * 24" "height c = 800"
    and a: "\<And>X Y. X < 800 * 24 \<Longrightarrow> Y < 800 \<Longrightarrow>
      (block_dist 800 2 (X mod 800 div 2) (Y div 2) \<le> 336 \<longrightarrow> alpha c X Y = 1) \<and>
      (386.4 \<le> block_dist 800 2 (X mod 800 div 2) (Y div 2) \<longrightarrow> alpha c X Y = 0)"
    by (auto simp: planetSizes_def planetFrames_def planetPixelSize_def Let_def)
  have "sqrt 2 \<le> 336" by (rule real_le_lsqrt) simp_all
  then have "block_dist 800 2 (400 mod 800 div 2) (400 div 2) \<le> 336"
    by (simp add: block_dist_def)
  then have 1: "alpha c 400 400 = 1" using a [of 400 400] by simp
  have "386.4 \<le> sqrt (399 * 399 + 399 * 399)" by (rule real_le_rsqrt) (simp add: power2_eq_square)
  then have "386.4 \<le> block_dist 800 2 (0 mod 800 div 2) (0 div 2)"
    "386.4 \<le> block_dist 800 2 (19199 mod 800 div 2) (799 div 2)"
    by (simp_all add: block_dist_def)
  then have "alpha c 0 0 = 0" "alpha c 19199 799 = 0"
    using a [of 0 0] a [of 19199 799] by simp_all
  with c dims 1 show ?thesis by blast
qed

end
